theory Spec2Isabelle
  imports Main "HOL-Library.AList" "HOL-Library.Sublist"
begin

section \<open>Python values and dictionaries\<close>

text \<open>
  The client of \<^verbatim>\<open>ss12000client.py\<close> is dynamically typed: keyword arguments,
  query parameters and JSON bodies are arbitrary Python values. They are modelled by
  one datatype. \<open>PNone\<close> is Python's \<^verbatim>\<open>None\<close>; a dictionary keeps its insertion
  order, as Python's does, and is an association list with distinct keys.
\<close>

datatype pyval =
    PNone
  | PBool bool
  | PInt int
  | PStr string
  | PList "pyval list"
  | PDict "(string \<times> pyval) list"

type_synonym pydict = "(string \<times> pyval) list"

text \<open>Python's truth value test, as used by \<^verbatim>\<open>if ids:\<close> and \<^verbatim>\<open>if expand:\<close>.\<close>

fun truthy :: "pyval \<Rightarrow> bool" where
  "truthy PNone = False"
| "truthy (PBool b) = b"
| "truthy (PInt i) = (i \<noteq> 0)"
| "truthy (PStr s) = (s \<noteq> [])"
| "truthy (PList xs) = (xs \<noteq> [])"
| "truthy (PDict d) = (d \<noteq> [])"

text \<open>\<^verbatim>\<open>d.get(k)\<close>: the value stored under \<open>k\<close>, and \<^verbatim>\<open>None\<close> for a missing key.\<close>

definition dict_get :: "pydict \<Rightarrow> string \<Rightarrow> pyval" where
  "dict_get d k = (case map_of d k of None \<Rightarrow> PNone | Some v \<Rightarrow> v)"

text \<open>\<^verbatim>\<open>d[k] = v\<close>: an existing key keeps its position, a new key goes to the end.\<close>

definition dict_set :: "pydict \<Rightarrow> string \<Rightarrow> pyval \<Rightarrow> pydict" where
  "dict_set d k v = AList.update k v d"

text \<open>A dictionary display \<^verbatim>\<open>{k1: v1, k2: v2, ...}\<close>: the entries are stored in turn.\<close>

definition dict_literal :: "(string \<times> pyval) list \<Rightarrow> pydict" where
  "dict_literal entries = foldl (\<lambda>d (k, v). dict_set d k v) [] entries"

text \<open>
  The comprehension \<^verbatim>\<open>{k: v for k, v in d.items() if v is not None}\<close> that every list
  method applies to its \<^verbatim>\<open>mapped_params\<close>.
\<close>

definition filter_none :: "pydict \<Rightarrow> pydict" where
  "filter_none d = foldl (\<lambda>acc (k, v). if v \<noteq> PNone then dict_set acc k v else acc) [] d"

definition dict_keys :: "pydict \<Rightarrow> string set" where
  "dict_keys d = fst ` set d"

text \<open>The keys of a value that is a dictionary; \<^verbatim>\<open>None\<close> (no dictionary given) has none.\<close>

fun keys_of :: "pyval \<Rightarrow> string set" where
  "keys_of (PDict d) = dict_keys d"
| "keys_of _ = {}"

section \<open>URL joining\<close>

text \<open>
  \<^verbatim>\<open>_request\<close> builds its URL with \<^verbatim>\<open>urllib.parse.urljoin\<close> of the Python standard
  library. The functions below follow CPython 3.11's \<^verbatim>\<open>urllib/parse.py\<close>
  (\<^verbatim>\<open>urlsplit\<close>, \<^verbatim>\<open>urlparse\<close>, \<^verbatim>\<open>urlunparse\<close>, \<^verbatim>\<open>urljoin\<close>) for URLs without
  leading blanks, control characters and bracketed IPv6 hosts, which the library strips
  or rejects before it splits.
\<close>

definition scheme_chars :: string where
  "scheme_chars = ''abcdefghijklmnopqrstuvwxyzABCDEFGHIJKLMNOPQRSTUVWXYZ0123456789+-.''"

definition ascii_letters :: string where
  "ascii_letters = ''abcdefghijklmnopqrstuvwxyzABCDEFGHIJKLMNOPQRSTUVWXYZ''"

definition lower_char :: "char \<Rightarrow> char" where
  "lower_char c =
     (case map_of (zip ''ABCDEFGHIJKLMNOPQRSTUVWXYZ'' ''abcdefghijklmnopqrstuvwxyz'') c of
        None \<Rightarrow> c | Some l \<Rightarrow> l)"

definition uses_relative :: "string list" where
  "uses_relative = ['''', ''ftp'', ''http'', ''gopher'', ''nntp'', ''imap'', ''wais'', ''file'',
     ''https'', ''shttp'', ''mms'', ''prospero'', ''rtsp'', ''rtsps'', ''rtspu'', ''sftp'',
     ''svn'', ''svn+ssh'', ''ws'', ''wss'']"

definition uses_netloc :: "string list" where
  "uses_netloc = ['''', ''ftp'', ''http'', ''gopher'', ''nntp'', ''telnet'', ''imap'', ''wais'',
     ''file'', ''mms'', ''https'', ''shttp'', ''snews'', ''prospero'', ''rtsp'', ''rtsps'',
     ''rtspu'', ''rsync'', ''svn'', ''svn+ssh'', ''sftp'', ''nfs'', ''git'', ''git+ssh'',
     ''ws'', ''wss'']"

definition uses_params :: "string list" where
  "uses_params = ['''', ''ftp'', ''hdl'', ''prospero'', ''http'', ''imap'', ''https'', ''shttp'',
     ''rtsp'', ''rtsps'', ''rtspu'', ''sip'', ''sips'', ''mms'', ''sftp'', ''tel'']"

text \<open>\<^verbatim>\<open>s.split(c, 1)\<close> for a string that contains \<open>c\<close>: the parts around its first occurrence.\<close>

definition split_first :: "char \<Rightarrow> string \<Rightarrow> string \<times> string" where
  "split_first c s = (takeWhile (\<lambda>x. x \<noteq> c) s, drop 1 (dropWhile (\<lambda>x. x \<noteq> c) s))"

text \<open>\<^verbatim>\<open>s.split('/')\<close>: the pieces between the separators, at least one piece.\<close>

fun split_on :: "char \<Rightarrow> string \<Rightarrow> string list" where
  "split_on c [] = [[]]"
| "split_on c (x # xs) =
     (if x = c then [] # split_on c xs
      else (case split_on c xs of [] \<Rightarrow> [[x]] | p # ps \<Rightarrow> (x # p) # ps))"

text \<open>\<^verbatim>\<open>'/'.join(segments)\<close>.\<close>

fun join_with :: "char \<Rightarrow> string list \<Rightarrow> string" where
  "join_with c [] = []"
| "join_with c [s] = s"
| "join_with c (s # t # ss) = s @ c # join_with c (t # ss)"

text \<open>\<^verbatim>\<open>_splitnetloc(url, 2)\<close>: the text after \<^verbatim>\<open>//\<close> up to the first of \<^verbatim>\<open>/?#\<close>, and the rest.\<close>

definition splitnetloc :: "string \<Rightarrow> string \<times> string" where
  "splitnetloc url =
     (let rest = drop 2 url
      in (takeWhile (\<lambda>c. c \<notin> set ''/?#'') rest, dropWhile (\<lambda>c. c \<notin> set ''/?#'') rest))"

record parse_result =
  pr_scheme :: string
  pr_netloc :: string
  pr_path :: string
  pr_params :: string
  pr_query :: string
  pr_fragment :: string

text \<open>\<^verbatim>\<open>_splitparams(url)\<close>: the parameters after the first \<^verbatim>\<open>;\<close> of the last path segment.\<close>

definition last_segment_start :: "string \<Rightarrow> nat" where
  "last_segment_start url = length url - length (takeWhile (\<lambda>c. c \<noteq> CHR ''/'') (rev url))"

definition splitparams :: "string \<Rightarrow> string \<times> string" where
  "splitparams url =
     (let start = (if CHR ''/'' \<in> set url then last_segment_start url - 1 else 0);
          front = take start url;
          back = drop start url
      in if CHR '';'' \<notin> set back then (url, [])
         else (front @ takeWhile (\<lambda>c. c \<noteq> CHR '';'') back,
               drop 1 (dropWhile (\<lambda>c. c \<noteq> CHR '';'') back)))"

definition urlparse :: "string \<Rightarrow> string \<Rightarrow> parse_result" where
  "urlparse url0 scheme0 =
     (let pre = takeWhile (\<lambda>c. c \<noteq> CHR '':'') url0;
          has_scheme = (CHR '':'' \<in> set url0 \<and> pre \<noteq> [] \<and> hd pre \<in> set ascii_letters
                        \<and> list_all (\<lambda>c. c \<in> set scheme_chars) pre);
          scheme = (if has_scheme then map lower_char pre else scheme0);
          url1 = (if has_scheme then drop (length pre + 1) url0 else url0);
          netloc = (if take 2 url1 = ''//'' then fst (splitnetloc url1) else []);
          url2 = (if take 2 url1 = ''//'' then snd (splitnetloc url1) else url1);
          fragment = (if CHR ''#'' \<in> set url2 then snd (split_first CHR ''#'' url2) else []);
          url3 = (if CHR ''#'' \<in> set url2 then fst (split_first CHR ''#'' url2) else url2);
          query = (if CHR ''?'' \<in> set url3 then snd (split_first CHR ''?'' url3) else []);
          url4 = (if CHR ''?'' \<in> set url3 then fst (split_first CHR ''?'' url3) else url3);
          with_params = (scheme \<in> set uses_params \<and> CHR '';'' \<in> set url4)
      in \<lparr>pr_scheme = scheme, pr_netloc = netloc,
          pr_path = (if with_params then fst (splitparams url4) else url4),
          pr_params = (if with_params then snd (splitparams url4) else []),
          pr_query = query, pr_fragment = fragment\<rparr>)"

definition urlunparse :: "parse_result \<Rightarrow> string" where
  "urlunparse p =
     (let url0 = (if pr_params p \<noteq> [] then pr_path p @ '';'' @ pr_params p else pr_path p);
          url1 = (if pr_netloc p \<noteq> [] \<or> (pr_scheme p \<noteq> [] \<and> pr_scheme p \<in> set uses_netloc)
                     \<or> take 2 url0 = ''//''
                  then ''//'' @ pr_netloc p
                       @ (if url0 \<noteq> [] \<and> take 1 url0 \<noteq> ''/'' then ''/'' @ url0 else url0)
                  else url0);
          url2 = (if pr_scheme p \<noteq> [] then pr_scheme p @ '':'' @ url1 else url1);
          url3 = (if pr_query p \<noteq> [] then url2 @ ''?'' @ pr_query p else url2)
      in if pr_fragment p \<noteq> [] then url3 @ ''#'' @ pr_fragment p else url3)"

text \<open>The loop of \<^verbatim>\<open>urljoin\<close> that removes \<^verbatim>\<open>.\<close> and \<^verbatim>\<open>..\<close> segments.\<close>

fun resolve_segments :: "string list \<Rightarrow> string list \<Rightarrow> string list" where
  "resolve_segments resolved [] = resolved"
| "resolve_segments resolved (seg # segs) =
     (if seg = ''..'' then resolve_segments (butlast resolved) segs
      else if seg = ''.'' then resolve_segments resolved segs
      else resolve_segments (resolved @ [seg]) segs)"

text \<open>\<^verbatim>\<open>segments[1:-1] = filter(None, segments[1:-1])\<close>: empty inner segments are dropped.\<close>

definition drop_empty_inner :: "string list \<Rightarrow> string list" where
  "drop_empty_inner segs =
     (if length segs < 2 then segs
      else hd segs # filter (\<lambda>s. s \<noteq> []) (butlast (tl segs)) @ [last segs])"

definition urljoin :: "string \<Rightarrow> string \<Rightarrow> string" where
  "urljoin base url =
     (if base = [] then url
      else if url = [] then base
      else
        let b = urlparse base [];
            u = urlparse url (pr_scheme b)
        in if pr_scheme u \<noteq> pr_scheme b \<or> pr_scheme u \<notin> set uses_relative then url
           else if pr_scheme u \<in> set uses_netloc \<and> pr_netloc u \<noteq> [] then urlunparse u
           else
             let netloc = (if pr_scheme u \<in> set uses_netloc then pr_netloc b else pr_netloc u)
             in if pr_path u = [] \<and> pr_params u = [] then
                  urlunparse (u\<lparr>pr_netloc := netloc, pr_path := pr_path b,
                                pr_params := pr_params b,
                                pr_query := (if pr_query u = [] then pr_query b else pr_query u)\<rparr>)
                else
                  let base_parts0 = split_on CHR ''/'' (pr_path b);
                      base_parts = (if last base_parts0 \<noteq> [] then butlast base_parts0
                                    else base_parts0);
                      segments = (if take 1 (pr_path u) = ''/'' then split_on CHR ''/'' (pr_path u)
                                  else drop_empty_inner
                                         (base_parts @ split_on CHR ''/'' (pr_path u)));
                      resolved0 = resolve_segments [] segments;
                      resolved = (if last segments \<in> {''.'', ''..''} then resolved0 @ [[]]
                                  else resolved0);
                      joined = join_with CHR ''/'' resolved
                  in urlunparse (u\<lparr>pr_netloc := netloc,
                                   pr_path := (if joined = [] then ''/'' else joined)\<rparr>))"

section \<open>The client and its request dispatcher\<close>

record client =
  base_url :: string
  headers :: "(string \<times> string) list"

text \<open>What the constructor prints.\<close>

datatype warning = NoHttpsWarning | NoTokenWarning

text \<open>
  \<^verbatim>\<open>SS12000Client.__init__\<close>: an empty base URL raises \<^verbatim>\<open>ValueError\<close> (\<open>Inl\<close>);
  a base URL that is not HTTPS and a missing token only print a warning. The token is
  \<^verbatim>\<open>None\<close> or a string.
\<close>

definition init :: "string \<Rightarrow> string option \<Rightarrow> warning list \<times> (string + client)" where
  "init url auth_token =
     (if url = [] then ([], Inl ''Base URL is mandatory for SS12000Client.'')
      else
        let no_token = (case auth_token of None \<Rightarrow> True | Some t \<Rightarrow> t = [])
        in ((if \<not> prefix ''https://'' url then [NoHttpsWarning] else [])
              @ (if no_token then [NoTokenWarning] else []),
            Inr \<lparr>base_url = url,
                 headers = [(''Content-Type'', ''application/json''),
                            (''Accept'', ''application/json'')]
                           @ (if no_token then []
                              else [(''Authorization'', ''Bearer '' @ the auth_token)])\<rparr>))"

text \<open>
  What \<^verbatim>\<open>response.json()\<close> does with a body: it returns the decoded value, or the
  decoder raises \<^verbatim>\<open>JSONDecodeError\<close> (the body is not JSON), or the decoder raises
  another exception, named by its class: \<^verbatim>\<open>RecursionError\<close> for a body nested too deep,
  \<^verbatim>\<open>ValueError\<close> for an integer literal with too many digits. \<^verbatim>\<open>Response.json\<close>
  converts only the \<^verbatim>\<open>JSONDecodeError\<close>; the others leave it as they are.
\<close>

datatype json_outcome =
    Decoded pyval
  | NotJson
  | DecodeCrash string

text \<open>
  An HTTP response as \<^verbatim>\<open>requests\<close> presents it: the status code, the body text, and
  what \<^verbatim>\<open>response.json()\<close> does with that body. JSON decoding belongs to the library,
  so its outcome comes with the response.
\<close>

record http_response =
  status_code :: int
  body_text :: string
  json_value :: json_outcome

text \<open>The arguments of the one call to \<^verbatim>\<open>requests.request\<close>.\<close>

record http_request =
  req_method :: string
  req_url :: string
  req_params :: pyval
  req_json :: pyval
  req_headers :: "(string \<times> string) list"
  req_timeout :: nat

text \<open>
  The exceptions a call can raise. Three are of
  \<^verbatim>\<open>requests.exceptions.RequestException\<close> and reach the handler: a failure of
  \<^verbatim>\<open>requests.request\<close> itself (connection, timeout, redirects; it may or may not hold a
  response), the \<^verbatim>\<open>HTTPError\<close> of \<^verbatim>\<open>raise_for_status\<close>, which holds the response,
  and the \<^verbatim>\<open>JSONDecodeError\<close> of \<^verbatim>\<open>response.json()\<close>, which holds the undecodable
  text and no response. The fourth, \<open>OtherDecodeError\<close>, is an exception of the decoder
  that is not a \<^verbatim>\<open>JSONDecodeError\<close>; it is no \<^verbatim>\<open>RequestException\<close>, and no
  \<^verbatim>\<open>except\<close> clause of \<^verbatim>\<open>_request\<close> catches it.
\<close>

datatype raised_exception =
    TransportError string "http_response option"
  | HTTPError http_response
  | JSONDecodeError string
  | OtherDecodeError string

text \<open>\<^verbatim>\<open>e.response\<close> of an exception the handler catches.\<close>

fun exn_response :: "raised_exception \<Rightarrow> http_response option" where
  "exn_response (TransportError msg r) = r"
| "exn_response (HTTPError r) = Some r"
| "exn_response (JSONDecodeError doc) = None"
| "exn_response (OtherDecodeError cls) = None"

text \<open>The network: what \<^verbatim>\<open>requests.request\<close> does with a request.\<close>

type_synonym network = "http_request \<Rightarrow> string \<times> http_response option + http_response"

text \<open>The lines \<^verbatim>\<open>_request\<close> prints in its exception handler.\<close>

datatype printed_line =
    ErrorDuringCall string string raised_exception
  | ApiErrorResponse pyval
  | ApiErrorResponseNonJson string

record outcome =
  sent :: http_request
  printed :: "printed_line list"
  result :: "raised_exception + pyval"

text \<open>
  The \<^verbatim>\<open>except requests.exceptions.RequestException as e\<close> block. It prints the error.
  When \<open>e\<close> holds a response it calls \<^verbatim>\<open>e.response.json()\<close> inside a
  \<^verbatim>\<open>try\<close> that catches \<^verbatim>\<open>json.JSONDecodeError\<close> only: a decoded body is printed, a
  \<^verbatim>\<open>JSONDecodeError\<close> is caught and the raw text printed, and in both cases \<open>e\<close> is
  raised again; any other exception of the decoder leaves the handler in place of \<open>e\<close>.
  \<^verbatim>\<open>print\<close>, and \<^verbatim>\<open>json.dumps\<close> of a value the decoder returned, are taken to succeed.
\<close>

definition handle_exception ::
  "http_request \<Rightarrow> string \<Rightarrow> string \<Rightarrow> raised_exception \<Rightarrow> outcome" where
  "handle_exception req method url e =
     (case exn_response e of
        None \<Rightarrow> \<lparr>sent = req, printed = [ErrorDuringCall method url e], result = Inl e\<rparr>
      | Some r \<Rightarrow>
          (case json_value r of
             Decoded error_body \<Rightarrow>
               \<lparr>sent = req,
                printed = [ErrorDuringCall method url e, ApiErrorResponse error_body],
                result = Inl e\<rparr>
           | NotJson \<Rightarrow>
               \<lparr>sent = req,
                printed = [ErrorDuringCall method url e, ApiErrorResponseNonJson (body_text r)],
                result = Inl e\<rparr>
           | DecodeCrash cls \<Rightarrow>
               \<lparr>sent = req, printed = [ErrorDuringCall method url e],
                result = Inl (OtherDecodeError cls)\<rparr>))"

text \<open>
  \<^verbatim>\<open>SS12000Client._request\<close>. \<^verbatim>\<open>raise_for_status\<close> raises for a status from 400 to
  599; a 204 returns \<^verbatim>\<open>None\<close>; any other response returns \<^verbatim>\<open>response.json()\<close>.
  The \<^verbatim>\<open>JSONDecodeError\<close> that \<^verbatim>\<open>response.json()\<close> raises is a
  \<^verbatim>\<open>RequestException\<close> (requests 2.27 and later), so it passes through the handler too;
  another exception of the decoder is not, and leaves \<^verbatim>\<open>_request\<close> uncaught.
\<close>

definition request ::
  "client \<Rightarrow> network \<Rightarrow> string \<Rightarrow> string \<Rightarrow> pyval \<Rightarrow> pyval \<Rightarrow> outcome" where
  "request self net method path params json_data =
     (let url = urljoin (base_url self) path;
          req = \<lparr>req_method = method, req_url = url, req_params = params,
                 req_json = json_data, req_headers = headers self, req_timeout = 30\<rparr>
      in case net req of
           Inl (msg, r) \<Rightarrow> handle_exception req method url (TransportError msg r)
         | Inr response \<Rightarrow>
             if 400 \<le> status_code response \<and> status_code response < 600
             then handle_exception req method url (HTTPError response)
             else if status_code response = 204
             then \<lparr>sent = req, printed = [], result = Inr PNone\<rparr>
             else (case json_value response of
                     Decoded v \<Rightarrow> \<lparr>sent = req, printed = [], result = Inr v\<rparr>
                   | NotJson \<Rightarrow>
                       handle_exception req method url (JSONDecodeError (body_text response))
                   | DecodeCrash cls \<Rightarrow>
                       \<lparr>sent = req, printed = [], result = Inl (OtherDecodeError cls)\<rparr>))"

section \<open>The endpoint methods\<close>

text \<open>
  Every method of the class, in the order of the source. A list method takes its keyword
  arguments \<^verbatim>\<open>**params\<close> as a dictionary; the parameters of the other methods are
  given in full, so a caller that omits one passes its default (\<^verbatim>\<open>None\<close> for
  \<^verbatim>\<open>ids\<close> and \<^verbatim>\<open>expand\<close>, \<^verbatim>\<open>False\<close> for \<^verbatim>\<open>expand_reference_names\<close>). A call that
  gives no \<^verbatim>\<open>params\<close> or \<^verbatim>\<open>json_data\<close> passes \<^verbatim>\<open>None\<close>.
\<close>

definition get_organisations ::
  "client \<Rightarrow> network \<Rightarrow> pydict \<Rightarrow> outcome" where
  "get_organisations self net params =
     (let mapped_params = dict_literal
            [(''parent'', dict_get params ''parent''),
             (''schoolUnitCode'', dict_get params ''school_unit_code''),
             (''organisationCode'', dict_get params ''organisation_code''),
             (''municipalityCode'', dict_get params ''municipality_code''),
             (''type'', dict_get params ''type''),
             (''schoolTypes'', dict_get params ''school_types''),
             (''startDate.onOrBefore'', dict_get params ''start_date_on_or_before''),
             (''startDate.onOrAfter'', dict_get params ''start_date_on_or_after''),
             (''endDate.onOrBefore'', dict_get params ''end_date_on_or_before''),
             (''endDate.onOrAfter'', dict_get params ''end_date_on_or_after''),
             (''meta.created.before'', dict_get params ''meta_created_before''),
             (''meta.created.after'', dict_get params ''meta_created_after''),
             (''meta.modified.before'', dict_get params ''meta_modified_before''),
             (''meta.modified.after'', dict_get params ''meta_modified_after''),
             (''expandReferenceNames'', dict_get params ''expand_reference_names''),
             (''sortkey'', dict_get params ''sortkey''),
             (''limit'', dict_get params ''limit''),
             (''pageToken'', dict_get params ''page_token'')];
          filtered_params = filter_none mapped_params
      in request self net ''GET'' ''/organisations'' (PDict filtered_params) PNone)"

definition lookup_organisations ::
  "client \<Rightarrow> network \<Rightarrow> pyval \<Rightarrow> pyval \<Rightarrow> pyval \<Rightarrow> pyval \<Rightarrow> outcome" where
  "lookup_organisations self net ids school_unit_codes organisation_codes expand_reference_names =
     (let body = dict_literal [];
          body = (if truthy ids then dict_set body ''ids'' ids else body);
          body =
            (if truthy school_unit_codes then dict_set body ''schoolUnitCodes'' school_unit_codes
             else body);
          body =
            (if truthy organisation_codes then dict_set body ''organisationCodes'' organisation_codes
             else body);
          params =
            (if truthy expand_reference_names then dict_literal [(''expandReferenceNames'', expand_reference_names)]
             else dict_literal [])
      in request self net ''POST'' ''/organisations/lookup'' (PDict params) (PDict body))"

definition get_organisation_by_id ::
  "client \<Rightarrow> network \<Rightarrow> string \<Rightarrow> pyval \<Rightarrow> outcome" where
  "get_organisation_by_id self net org_id expand_reference_names =
     (let params =
            (if truthy expand_reference_names then dict_literal [(''expandReferenceNames'', expand_reference_names)]
             else dict_literal [])
      in request self net ''GET'' (''/organisations/'' @ org_id) (PDict params) PNone)"

definition get_persons ::
  "client \<Rightarrow> network \<Rightarrow> pydict \<Rightarrow> outcome" where
  "get_persons self net params =
     (let mapped_params = dict_literal
            [(''nameContains'', dict_get params ''name_contains''),
             (''civicNo'', dict_get params ''civic_no''),
             (''eduPersonPrincipalName'', dict_get params ''edu_person_principal_name''),
             (''identifier.value'', dict_get params ''identifier_value''),
             (''identifier.context'', dict_get params ''identifier_context''),
             (''relationship.entity.type'', dict_get params ''relationship_entity_type''),
             (''relationship.organisation'', dict_get params ''relationship_organisation''),
             (''relationship.startDate.onOrBefore'', dict_get params ''relationship_start_date_on_or_before''),
             (''relationship.startDate.onOrAfter'', dict_get params ''relationship_start_date_on_or_after''),
             (''relationship.endDate.onOrBefore'', dict_get params ''relationship_end_date_on_or_before''),
             (''relationship.endDate.onOrAfter'', dict_get params ''relationship_end_date_on_or_after''),
             (''meta.created.before'', dict_get params ''meta_created_before''),
             (''meta.created.after'', dict_get params ''meta_created_after''),
             (''meta.modified.before'', dict_get params ''meta_modified_before''),
             (''meta.modified.after'', dict_get params ''meta_modified_after''),
             (''expand'', dict_get params ''expand''),
             (''expandReferenceNames'', dict_get params ''expand_reference_names''),
             (''sortkey'', dict_get params ''sortkey''),
             (''limit'', dict_get params ''limit''),
             (''pageToken'', dict_get params ''page_token'')];
          filtered_params = filter_none mapped_params
      in request self net ''GET'' ''/persons'' (PDict filtered_params) PNone)"

definition lookup_persons ::
  "client \<Rightarrow> network \<Rightarrow> pyval \<Rightarrow> pyval \<Rightarrow> pyval \<Rightarrow> pyval \<Rightarrow> outcome" where
  "lookup_persons self net ids civic_nos expand expand_reference_names =
     (let body = dict_literal [];
          body = (if truthy ids then dict_set body ''ids'' ids else body);
          body = (if truthy civic_nos then dict_set body ''civicNos'' civic_nos else body);
          params = dict_literal [];
          params = (if truthy expand then dict_set params ''expand'' expand else params);
          params =
            (if truthy expand_reference_names then dict_set params ''expandReferenceNames'' expand_reference_names
             else params)
      in request self net ''POST'' ''/persons/lookup'' (PDict params) (PDict body))"

definition get_person_by_id ::
  "client \<Rightarrow> network \<Rightarrow> string \<Rightarrow> pyval \<Rightarrow> pyval \<Rightarrow> outcome" where
  "get_person_by_id self net person_id expand expand_reference_names =
     (let params = dict_literal [];
          params = (if truthy expand then dict_set params ''expand'' expand else params);
          params =
            (if truthy expand_reference_names then dict_set params ''expandReferenceNames'' expand_reference_names
             else params)
      in request self net ''GET'' (''/persons/'' @ person_id) (PDict params) PNone)"

definition get_placements ::
  "client \<Rightarrow> network \<Rightarrow> pydict \<Rightarrow> outcome" where
  "get_placements self net params =
     (let mapped_params = dict_literal
            [(''child'', dict_get params ''child''),
             (''group'', dict_get params ''group''),
             (''owner'', dict_get params ''owner''),
             (''placedAt'', dict_get params ''placed_at''),
             (''schoolType'', dict_get params ''school_type''),
             (''startDate.onOrBefore'', dict_get params ''start_date_on_or_before''),
             (''startDate.onOrAfter'', dict_get params ''start_date_on_or_after''),
             (''endDate.onOrBefore'', dict_get params ''end_date_on_or_before''),
             (''endDate.onOrAfter'', dict_get params ''end_date_on_or_after''),
             (''meta.created.before'', dict_get params ''meta_created_before''),
             (''meta.created.after'', dict_get params ''meta_created_after''),
             (''meta.modified.before'', dict_get params ''meta_modified_before''),
             (''meta.modified.after'', dict_get params ''meta_modified_after''),
             (''expand'', dict_get params ''expand''),
             (''expandReferenceNames'', dict_get params ''expand_reference_names''),
             (''sortkey'', dict_get params ''sortkey''),
             (''limit'', dict_get params ''limit''),
             (''pageToken'', dict_get params ''page_token'')];
          filtered_params = filter_none mapped_params
      in request self net ''GET'' ''/placements'' (PDict filtered_params) PNone)"

definition lookup_placements ::
  "client \<Rightarrow> network \<Rightarrow> pyval \<Rightarrow> pyval \<Rightarrow> pyval \<Rightarrow> outcome" where
  "lookup_placements self net ids expand expand_reference_names =
     (let body = (if truthy ids then dict_literal [(''ids'', ids)] else dict_literal []);
          params = dict_literal [];
          params = (if truthy expand then dict_set params ''expand'' expand else params);
          params =
            (if truthy expand_reference_names then dict_set params ''expandReferenceNames'' expand_reference_names
             else params)
      in request self net ''POST'' ''/placements/lookup'' (PDict params) (PDict body))"

definition get_placement_by_id ::
  "client \<Rightarrow> network \<Rightarrow> string \<Rightarrow> pyval \<Rightarrow> pyval \<Rightarrow> outcome" where
  "get_placement_by_id self net placement_id expand expand_reference_names =
     (let params = dict_literal [];
          params = (if truthy expand then dict_set params ''expand'' expand else params);
          params =
            (if truthy expand_reference_names then dict_set params ''expandReferenceNames'' expand_reference_names
             else params)
      in request self net ''GET'' (''/placements/'' @ placement_id) (PDict params) PNone)"

definition get_duties ::
  "client \<Rightarrow> network \<Rightarrow> pydict \<Rightarrow> outcome" where
  "get_duties self net params =
     (let mapped_params = dict_literal
            [(''person'', dict_get params ''person''),
             (''dutyAt'', dict_get params ''duty_at''),
             (''dutyRole'', dict_get params ''duty_role''),
             (''signature'', dict_get params ''signature''),
             (''startDate.onOrBefore'', dict_get params ''start_date_on_or_before''),
             (''startDate.onOrAfter'', dict_get params ''start_date_on_or_after''),
             (''endDate.onOrBefore'', dict_get params ''end_date_on_or_before''),
             (''endDate.onOrAfter'', dict_get params ''end_date_on_or_after''),
             (''meta.created.before'', dict_get params ''meta_created_before''),
             (''meta.created.after'', dict_get params ''meta_created_after''),
             (''meta.modified.before'', dict_get params ''meta_modified_before''),
             (''meta.modified.after'', dict_get params ''meta_modified_after''),
             (''expand'', dict_get params ''expand''),
             (''expandReferenceNames'', dict_get params ''expand_reference_names''),
             (''sortkey'', dict_get params ''sortkey''),
             (''limit'', dict_get params ''limit''),
             (''pageToken'', dict_get params ''page_token'')];
          filtered_params = filter_none mapped_params
      in request self net ''GET'' ''/duties'' (PDict filtered_params) PNone)"

definition lookup_duties ::
  "client \<Rightarrow> network \<Rightarrow> pyval \<Rightarrow> pyval \<Rightarrow> pyval \<Rightarrow> outcome" where
  "lookup_duties self net ids expand expand_reference_names =
     (let body = (if truthy ids then dict_literal [(''ids'', ids)] else dict_literal []);
          params = dict_literal [];
          params = (if truthy expand then dict_set params ''expand'' expand else params);
          params =
            (if truthy expand_reference_names then dict_set params ''expandReferenceNames'' expand_reference_names
             else params)
      in request self net ''POST'' ''/duties/lookup'' (PDict params) (PDict body))"

definition get_duty_by_id ::
  "client \<Rightarrow> network \<Rightarrow> string \<Rightarrow> pyval \<Rightarrow> pyval \<Rightarrow> outcome" where
  "get_duty_by_id self net duty_id expand expand_reference_names =
     (let params = dict_literal [];
          params = (if truthy expand then dict_set params ''expand'' expand else params);
          params =
            (if truthy expand_reference_names then dict_set params ''expandReferenceNames'' expand_reference_names
             else params)
      in request self net ''GET'' (''/duties/'' @ duty_id) (PDict params) PNone)"

definition get_groups ::
  "client \<Rightarrow> network \<Rightarrow> pydict \<Rightarrow> outcome" where
  "get_groups self net params =
     (let mapped_params = dict_literal
            [(''groupType'', dict_get params ''group_type''),
             (''schoolType'', dict_get params ''school_type''),
             (''organisation'', dict_get params ''organisation''),
             (''startDate.onOrBefore'', dict_get params ''start_date_on_or_before''),
             (''startDate.onOrAfter'', dict_get params ''start_date_on_or_after''),
             (''endDate.onOrBefore'', dict_get params ''end_date_on_or_before''),
             (''endDate.onOrAfter'', dict_get params ''end_date_on_or_after''),
             (''meta.created.before'', dict_get params ''meta_created_before''),
             (''meta.created.after'', dict_get params ''meta_created_after''),
             (''meta.modified.before'', dict_get params ''meta_modified_before''),
             (''meta.modified.after'', dict_get params ''meta_modified_after''),
             (''expand'', dict_get params ''expand''),
             (''expandReferenceNames'', dict_get params ''expand_reference_names''),
             (''sortkey'', dict_get params ''sortkey''),
             (''limit'', dict_get params ''limit''),
             (''pageToken'', dict_get params ''page_token'')];
          filtered_params = filter_none mapped_params
      in request self net ''GET'' ''/groups'' (PDict filtered_params) PNone)"

definition lookup_groups ::
  "client \<Rightarrow> network \<Rightarrow> pyval \<Rightarrow> pyval \<Rightarrow> pyval \<Rightarrow> outcome" where
  "lookup_groups self net ids expand expand_reference_names =
     (let body = (if truthy ids then dict_literal [(''ids'', ids)] else dict_literal []);
          params = dict_literal [];
          params = (if truthy expand then dict_set params ''expand'' expand else params);
          params =
            (if truthy expand_reference_names then dict_set params ''expandReferenceNames'' expand_reference_names
             else params)
      in request self net ''POST'' ''/groups/lookup'' (PDict params) (PDict body))"

definition get_group_by_id ::
  "client \<Rightarrow> network \<Rightarrow> string \<Rightarrow> pyval \<Rightarrow> pyval \<Rightarrow> outcome" where
  "get_group_by_id self net group_id expand expand_reference_names =
     (let params = dict_literal [];
          params = (if truthy expand then dict_set params ''expand'' expand else params);
          params =
            (if truthy expand_reference_names then dict_set params ''expandReferenceNames'' expand_reference_names
             else params)
      in request self net ''GET'' (''/groups/'' @ group_id) (PDict params) PNone)"

definition get_programmes ::
  "client \<Rightarrow> network \<Rightarrow> pydict \<Rightarrow> outcome" where
  "get_programmes self net params =
     (let mapped_params = dict_literal
            [(''nameContains'', dict_get params ''name_contains''),
             (''type'', dict_get params ''type''),
             (''parentProgramme'', dict_get params ''parent_programme''),
             (''schoolType'', dict_get params ''school_type''),
             (''code'', dict_get params ''code''),
             (''meta.created.before'', dict_get params ''meta_created_before''),
             (''meta.created.after'', dict_get params ''meta_created_after''),
             (''meta.modified.before'', dict_get params ''meta_modified_before''),
             (''meta.modified.after'', dict_get params ''meta_modified_after''),
             (''expand'', dict_get params ''expand''),
             (''expandReferenceNames'', dict_get params ''expand_reference_names''),
             (''sortkey'', dict_get params ''sortkey''),
             (''limit'', dict_get params ''limit''),
             (''pageToken'', dict_get params ''page_token'')];
          filtered_params = filter_none mapped_params
      in request self net ''GET'' ''/programmes'' (PDict filtered_params) PNone)"

definition lookup_programmes ::
  "client \<Rightarrow> network \<Rightarrow> pyval \<Rightarrow> pyval \<Rightarrow> pyval \<Rightarrow> outcome" where
  "lookup_programmes self net ids expand expand_reference_names =
     (let body = (if truthy ids then dict_literal [(''ids'', ids)] else dict_literal []);
          params = dict_literal [];
          params = (if truthy expand then dict_set params ''expand'' expand else params);
          params =
            (if truthy expand_reference_names then dict_set params ''expandReferenceNames'' expand_reference_names
             else params)
      in request self net ''POST'' ''/programmes/lookup'' (PDict params) (PDict body))"

definition get_programme_by_id ::
  "client \<Rightarrow> network \<Rightarrow> string \<Rightarrow> pyval \<Rightarrow> pyval \<Rightarrow> outcome" where
  "get_programme_by_id self net programme_id expand expand_reference_names =
     (let params = dict_literal [];
          params = (if truthy expand then dict_set params ''expand'' expand else params);
          params =
            (if truthy expand_reference_names then dict_set params ''expandReferenceNames'' expand_reference_names
             else params)
      in request self net ''GET'' (''/programmes/'' @ programme_id) (PDict params) PNone)"

definition get_study_plans ::
  "client \<Rightarrow> network \<Rightarrow> pydict \<Rightarrow> outcome" where
  "get_study_plans self net params =
     (let mapped_params = dict_literal
            [(''student'', dict_get params ''student''),
             (''startDate.onOrBefore'', dict_get params ''start_date_on_or_before''),
             (''startDate.onOrAfter'', dict_get params ''start_date_on_or_after''),
             (''endDate.onOrBefore'', dict_get params ''end_date_on_or_before''),
             (''endDate.onOrAfter'', dict_get params ''end_date_on_or_after''),
             (''meta.created.before'', dict_get params ''meta_created_before''),
             (''meta.created.after'', dict_get params ''meta_created_after''),
             (''meta.modified.before'', dict_get params ''meta_modified_before''),
             (''meta.modified.after'', dict_get params ''meta_modified_after''),
             (''expand'', dict_get params ''expand''),
             (''expandReferenceNames'', dict_get params ''expand_reference_names''),
             (''sortkey'', dict_get params ''sortkey''),
             (''limit'', dict_get params ''limit''),
             (''pageToken'', dict_get params ''page_token'')];
          filtered_params = filter_none mapped_params
      in request self net ''GET'' ''/studyplans'' (PDict filtered_params) PNone)"

definition lookup_study_plans ::
  "client \<Rightarrow> network \<Rightarrow> pyval \<Rightarrow> pyval \<Rightarrow> pyval \<Rightarrow> outcome" where
  "lookup_study_plans self net ids expand expand_reference_names =
     (let body = (if truthy ids then dict_literal [(''ids'', ids)] else dict_literal []);
          params = dict_literal [];
          params = (if truthy expand then dict_set params ''expand'' expand else params);
          params =
            (if truthy expand_reference_names then dict_set params ''expandReferenceNames'' expand_reference_names
             else params)
      in request self net ''POST'' ''/studyplans/lookup'' (PDict params) (PDict body))"

definition get_study_plan_by_id ::
  "client \<Rightarrow> network \<Rightarrow> string \<Rightarrow> pyval \<Rightarrow> pyval \<Rightarrow> outcome" where
  "get_study_plan_by_id self net study_plan_id expand expand_reference_names =
     (let params = dict_literal [];
          params = (if truthy expand then dict_set params ''expand'' expand else params);
          params =
            (if truthy expand_reference_names then dict_set params ''expandReferenceNames'' expand_reference_names
             else params)
      in request self net ''GET'' (''/studyplans/'' @ study_plan_id) (PDict params) PNone)"

definition get_syllabuses ::
  "client \<Rightarrow> network \<Rightarrow> pydict \<Rightarrow> outcome" where
  "get_syllabuses self net params =
     (let mapped_params = dict_literal
            [(''schoolType'', dict_get params ''school_type''),
             (''subjectCode'', dict_get params ''subject_code''),
             (''subjectNameContains'', dict_get params ''subject_name_contains''),
             (''subjectDesignation'', dict_get params ''subject_designation''),
             (''courseCode'', dict_get params ''course_code''),
             (''courseNameContains'', dict_get params ''course_name_contains''),
             (''startSchoolYear.onOrBefore'', dict_get params ''start_school_year_on_or_before''),
             (''startSchoolYear.onOrAfter'', dict_get params ''start_school_year_on_or_after''),
             (''endSchoolYear.onOrBefore'', dict_get params ''end_school_year_on_or_before''),
             (''endSchoolYear.onOrAfter'', dict_get params ''end_school_year_on_or_after''),
             (''points.onOrBefore'', dict_get params ''points_on_or_before''),
             (''points.onOrAfter'', dict_get params ''points_on_or_after''),
             (''curriculum'', dict_get params ''curriculum''),
             (''languageCode'', dict_get params ''language_code''),
             (''official'', dict_get params ''official''),
             (''meta.created.before'', dict_get params ''meta_created_before''),
             (''meta.created.after'', dict_get params ''meta_created_after''),
             (''meta.modified.before'', dict_get params ''meta_modified_before''),
             (''meta.modified.after'', dict_get params ''meta_modified_after''),
             (''expandReferenceNames'', dict_get params ''expand_reference_names''),
             (''sortkey'', dict_get params ''sortkey''),
             (''limit'', dict_get params ''limit''),
             (''pageToken'', dict_get params ''page_token'')];
          filtered_params = filter_none mapped_params
      in request self net ''GET'' ''/syllabuses'' (PDict filtered_params) PNone)"

definition lookup_syllabuses ::
  "client \<Rightarrow> network \<Rightarrow> pyval \<Rightarrow> pyval \<Rightarrow> outcome" where
  "lookup_syllabuses self net ids expand_reference_names =
     (let body = (if truthy ids then dict_literal [(''ids'', ids)] else dict_literal []);
          params =
            (if truthy expand_reference_names then dict_literal [(''expandReferenceNames'', expand_reference_names)]
             else dict_literal [])
      in request self net ''POST'' ''/syllabuses/lookup'' (PDict params) (PDict body))"

definition get_syllabus_by_id ::
  "client \<Rightarrow> network \<Rightarrow> string \<Rightarrow> pyval \<Rightarrow> outcome" where
  "get_syllabus_by_id self net syllabus_id expand_reference_names =
     (let params =
            (if truthy expand_reference_names then dict_literal [(''expandReferenceNames'', expand_reference_names)]
             else dict_literal [])
      in request self net ''GET'' (''/syllabuses/'' @ syllabus_id) (PDict params) PNone)"

definition get_school_unit_offerings ::
  "client \<Rightarrow> network \<Rightarrow> pydict \<Rightarrow> outcome" where
  "get_school_unit_offerings self net params =
     (let mapped_params = dict_literal
            [(''offeredAt'', dict_get params ''offered_at''),
             (''offeredSyllabuses'', dict_get params ''offered_syllabuses''),
             (''offeredProgrammes'', dict_get params ''offered_programmes''),
             (''startDate.onOrBefore'', dict_get params ''start_date_on_or_before''),
             (''startDate.onOrAfter'', dict_get params ''start_date_on_or_after''),
             (''endDate.onOrBefore'', dict_get params ''end_date_on_or_before''),
             (''endDate.onOrAfter'', dict_get params ''end_date_on_or_after''),
             (''meta.created.before'', dict_get params ''meta_created_before''),
             (''meta.created.after'', dict_get params ''meta_created_after''),
             (''meta.modified.before'', dict_get params ''meta_modified_before''),
             (''meta.modified.after'', dict_get params ''meta_modified_after''),
             (''expand'', dict_get params ''expand''),
             (''expandReferenceNames'', dict_get params ''expand_reference_names''),
             (''sortkey'', dict_get params ''sortkey''),
             (''limit'', dict_get params ''limit''),
             (''pageToken'', dict_get params ''page_token'')];
          filtered_params = filter_none mapped_params
      in request self net ''GET'' ''/schoolUnitOfferings'' (PDict filtered_params) PNone)"

definition lookup_school_unit_offerings ::
  "client \<Rightarrow> network \<Rightarrow> pyval \<Rightarrow> pyval \<Rightarrow> pyval \<Rightarrow> outcome" where
  "lookup_school_unit_offerings self net ids expand expand_reference_names =
     (let body = (if truthy ids then dict_literal [(''ids'', ids)] else dict_literal []);
          params = dict_literal [];
          params = (if truthy expand then dict_set params ''expand'' expand else params);
          params =
            (if truthy expand_reference_names then dict_set params ''expandReferenceNames'' expand_reference_names
             else params)
      in request self net ''POST'' ''/schoolUnitOfferings/lookup'' (PDict params) (PDict body))"

definition get_school_unit_offering_by_id ::
  "client \<Rightarrow> network \<Rightarrow> string \<Rightarrow> pyval \<Rightarrow> pyval \<Rightarrow> outcome" where
  "get_school_unit_offering_by_id self net offering_id expand expand_reference_names =
     (let params = dict_literal [];
          params = (if truthy expand then dict_set params ''expand'' expand else params);
          params =
            (if truthy expand_reference_names then dict_set params ''expandReferenceNames'' expand_reference_names
             else params)
      in request self net ''GET'' (''/schoolUnitOfferings/'' @ offering_id) (PDict params) PNone)"

definition get_activities ::
  "client \<Rightarrow> network \<Rightarrow> pydict \<Rightarrow> outcome" where
  "get_activities self net params =
     (let mapped_params = dict_literal
            [(''organisation'', dict_get params ''organisation''),
             (''syllabus'', dict_get params ''syllabus''),
             (''activityType'', dict_get params ''activity_type''),
             (''calendarEventsRequired'', dict_get params ''calendar_events_required''),
             (''startDate.onOrBefore'', dict_get params ''start_date_on_or_before''),
             (''startDate.onOrAfter'', dict_get params ''start_date_on_or_after''),
             (''endDate.onOrBefore'', dict_get params ''end_date_on_or_before''),
             (''endDate.onOrAfter'', dict_get params ''end_date_on_or_after''),
             (''meta.created.before'', dict_get params ''meta_created_before''),
             (''meta.created.after'', dict_get params ''meta_created_after''),
             (''meta.modified.before'', dict_get params ''meta_modified_before''),
             (''meta.modified.after'', dict_get params ''meta_modified_after''),
             (''expand'', dict_get params ''expand''),
             (''expandReferenceNames'', dict_get params ''expand_reference_names''),
             (''sortkey'', dict_get params ''sortkey''),
             (''limit'', dict_get params ''limit''),
             (''pageToken'', dict_get params ''page_token'')];
          filtered_params = filter_none mapped_params
      in request self net ''GET'' ''/activities'' (PDict filtered_params) PNone)"

definition lookup_activities ::
  "client \<Rightarrow> network \<Rightarrow> pyval \<Rightarrow> pyval \<Rightarrow> pyval \<Rightarrow> outcome" where
  "lookup_activities self net ids expand expand_reference_names =
     (let body = (if truthy ids then dict_literal [(''ids'', ids)] else dict_literal []);
          params = dict_literal [];
          params = (if truthy expand then dict_set params ''expand'' expand else params);
          params =
            (if truthy expand_reference_names then dict_set params ''expandReferenceNames'' expand_reference_names
             else params)
      in request self net ''POST'' ''/activities/lookup'' (PDict params) (PDict body))"

definition get_activity_by_id ::
  "client \<Rightarrow> network \<Rightarrow> string \<Rightarrow> pyval \<Rightarrow> pyval \<Rightarrow> outcome" where
  "get_activity_by_id self net activity_id expand expand_reference_names =
     (let params = dict_literal [];
          params = (if truthy expand then dict_set params ''expand'' expand else params);
          params =
            (if truthy expand_reference_names then dict_set params ''expandReferenceNames'' expand_reference_names
             else params)
      in request self net ''GET'' (''/activities/'' @ activity_id) (PDict params) PNone)"

definition get_calendar_events ::
  "client \<Rightarrow> network \<Rightarrow> pydict \<Rightarrow> outcome" where
  "get_calendar_events self net params =
     (let mapped_params = dict_literal
            [(''activity'', dict_get params ''activity''),
             (''startTime.onOrBefore'', dict_get params ''start_time_on_or_before''),
             (''startTime.onOrAfter'', dict_get params ''start_time_on_or_after''),
             (''endTime.onOrBefore'', dict_get params ''end_time_on_or_before''),
             (''endTime.onOrAfter'', dict_get params ''end_time_on_or_after''),
             (''cancelled'', dict_get params ''cancelled''),
             (''room'', dict_get params ''room''),
             (''resource'', dict_get params ''resource''),
             (''meta.created.before'', dict_get params ''meta_created_before''),
             (''meta.created.after'', dict_get params ''meta_created_after''),
             (''meta.modified.before'', dict_get params ''meta_modified_before''),
             (''meta.modified.after'', dict_get params ''meta_modified_after''),
             (''expand'', dict_get params ''expand''),
             (''expandReferenceNames'', dict_get params ''expand_reference_names''),
             (''sortkey'', dict_get params ''sortkey''),
             (''limit'', dict_get params ''limit''),
             (''pageToken'', dict_get params ''page_token'')];
          filtered_params = filter_none mapped_params
      in request self net ''GET'' ''/calendarEvents'' (PDict filtered_params) PNone)"

definition lookup_calendar_events ::
  "client \<Rightarrow> network \<Rightarrow> pyval \<Rightarrow> pyval \<Rightarrow> pyval \<Rightarrow> outcome" where
  "lookup_calendar_events self net ids expand expand_reference_names =
     (let body = (if truthy ids then dict_literal [(''ids'', ids)] else dict_literal []);
          params = dict_literal [];
          params = (if truthy expand then dict_set params ''expand'' expand else params);
          params =
            (if truthy expand_reference_names then dict_set params ''expandReferenceNames'' expand_reference_names
             else params)
      in request self net ''POST'' ''/calendarEvents/lookup'' (PDict params) (PDict body))"

definition get_calendar_event_by_id ::
  "client \<Rightarrow> network \<Rightarrow> string \<Rightarrow> pyval \<Rightarrow> pyval \<Rightarrow> outcome" where
  "get_calendar_event_by_id self net event_id expand expand_reference_names =
     (let params = dict_literal [];
          params = (if truthy expand then dict_set params ''expand'' expand else params);
          params =
            (if truthy expand_reference_names then dict_set params ''expandReferenceNames'' expand_reference_names
             else params)
      in request self net ''GET'' (''/calendarEvents/'' @ event_id) (PDict params) PNone)"

definition get_attendances ::
  "client \<Rightarrow> network \<Rightarrow> pydict \<Rightarrow> outcome" where
  "get_attendances self net params =
     (let mapped_params = dict_literal
            [(''calendarEvent'', dict_get params ''calendar_event''),
             (''student'', dict_get params ''student''),
             (''reporter'', dict_get params ''reporter''),
             (''isReported'', dict_get params ''is_reported''),
             (''reportedTimestamp.onOrBefore'', dict_get params ''reported_timestamp_on_or_before''),
             (''reportedTimestamp.onOrAfter'', dict_get params ''reported_timestamp_on_or_after''),
             (''meta.created.before'', dict_get params ''meta_created_before''),
             (''meta.created.after'', dict_get params ''meta_created_after''),
             (''meta.modified.before'', dict_get params ''meta_modified_before''),
             (''meta.modified.after'', dict_get params ''meta_modified_after''),
             (''expand'', dict_get params ''expand''),
             (''expandReferenceNames'', dict_get params ''expand_reference_names''),
             (''sortkey'', dict_get params ''sortkey''),
             (''limit'', dict_get params ''limit''),
             (''pageToken'', dict_get params ''page_token'')];
          filtered_params = filter_none mapped_params
      in request self net ''GET'' ''/attendances'' (PDict filtered_params) PNone)"

definition lookup_attendances ::
  "client \<Rightarrow> network \<Rightarrow> pyval \<Rightarrow> pyval \<Rightarrow> pyval \<Rightarrow> outcome" where
  "lookup_attendances self net ids expand expand_reference_names =
     (let body = (if truthy ids then dict_literal [(''ids'', ids)] else dict_literal []);
          params = dict_literal [];
          params = (if truthy expand then dict_set params ''expand'' expand else params);
          params =
            (if truthy expand_reference_names then dict_set params ''expandReferenceNames'' expand_reference_names
             else params)
      in request self net ''POST'' ''/attendances/lookup'' (PDict params) (PDict body))"

definition get_attendance_by_id ::
  "client \<Rightarrow> network \<Rightarrow> string \<Rightarrow> pyval \<Rightarrow> pyval \<Rightarrow> outcome" where
  "get_attendance_by_id self net attendance_id expand expand_reference_names =
     (let params = dict_literal [];
          params = (if truthy expand then dict_set params ''expand'' expand else params);
          params =
            (if truthy expand_reference_names then dict_set params ''expandReferenceNames'' expand_reference_names
             else params)
      in request self net ''GET'' (''/attendances/'' @ attendance_id) (PDict params) PNone)"

definition delete_attendance ::
  "client \<Rightarrow> network \<Rightarrow> string \<Rightarrow> outcome" where
  "delete_attendance self net attendance_id =
     request self net ''DELETE'' (''/attendances/'' @ attendance_id) PNone PNone"

definition get_attendance_events ::
  "client \<Rightarrow> network \<Rightarrow> pydict \<Rightarrow> outcome" where
  "get_attendance_events self net params =
     (let mapped_params = dict_literal
            [(''person'', dict_get params ''person''),
             (''registeredBy'', dict_get params ''registered_by''),
             (''group'', dict_get params ''group''),
             (''room'', dict_get params ''room''),
             (''time.onOrBefore'', dict_get params ''time_on_or_before''),
             (''time.onOrAfter'', dict_get params ''time_on_or_after''),
             (''eventType'', dict_get params ''event_type''),
             (''meta.created.before'', dict_get params ''meta_created_before''),
             (''meta.created.after'', dict_get params ''meta_created_after''),
             (''meta.modified.before'', dict_get params ''meta_modified_before''),
             (''meta.modified.after'', dict_get params ''meta_modified_after''),
             (''expand'', dict_get params ''expand''),
             (''expandReferenceNames'', dict_get params ''expand_reference_names''),
             (''sortkey'', dict_get params ''sortkey''),
             (''limit'', dict_get params ''limit''),
             (''pageToken'', dict_get params ''page_token'')];
          filtered_params = filter_none mapped_params
      in request self net ''GET'' ''/attendanceEvents'' (PDict filtered_params) PNone)"

definition lookup_attendance_events ::
  "client \<Rightarrow> network \<Rightarrow> pyval \<Rightarrow> pyval \<Rightarrow> pyval \<Rightarrow> outcome" where
  "lookup_attendance_events self net ids expand expand_reference_names =
     (let body = (if truthy ids then dict_literal [(''ids'', ids)] else dict_literal []);
          params = dict_literal [];
          params = (if truthy expand then dict_set params ''expand'' expand else params);
          params =
            (if truthy expand_reference_names then dict_set params ''expandReferenceNames'' expand_reference_names
             else params)
      in request self net ''POST'' ''/attendanceEvents/lookup'' (PDict params) (PDict body))"

definition get_attendance_event_by_id ::
  "client \<Rightarrow> network \<Rightarrow> string \<Rightarrow> pyval \<Rightarrow> pyval \<Rightarrow> outcome" where
  "get_attendance_event_by_id self net event_id expand expand_reference_names =
     (let params = dict_literal [];
          params = (if truthy expand then dict_set params ''expand'' expand else params);
          params =
            (if truthy expand_reference_names then dict_set params ''expandReferenceNames'' expand_reference_names
             else params)
      in request self net ''GET'' (''/attendanceEvents/'' @ event_id) (PDict params) PNone)"

definition get_attendance_schedules ::
  "client \<Rightarrow> network \<Rightarrow> pydict \<Rightarrow> outcome" where
  "get_attendance_schedules self net params =
     (let mapped_params = dict_literal
            [(''placement'', dict_get params ''placement''),
             (''numberOfWeeks.onOrBefore'', dict_get params ''number_of_weeks_on_or_before''),
             (''numberOfWeeks.onOrAfter'', dict_get params ''number_of_weeks_on_or_after''),
             (''startDate.onOrBefore'', dict_get params ''start_date_on_or_before''),
             (''startDate.onOrAfter'', dict_get params ''start_date_on_or_after''),
             (''endDate.onOrBefore'', dict_get params ''end_date_on_or_before''),
             (''endDate.onOrAfter'', dict_get params ''end_date_on_or_after''),
             (''temporary'', dict_get params ''temporary''),
             (''state'', dict_get params ''state''),
             (''meta.created.before'', dict_get params ''meta_created_before''),
             (''meta.created.after'', dict_get params ''meta_created_after''),
             (''meta.modified.before'', dict_get params ''meta_modified_before''),
             (''meta.modified.after'', dict_get params ''meta_modified_after''),
             (''expand'', dict_get params ''expand''),
             (''expandReferenceNames'', dict_get params ''expand_reference_names''),
             (''sortkey'', dict_get params ''sortkey''),
             (''limit'', dict_get params ''limit''),
             (''pageToken'', dict_get params ''page_token'')];
          filtered_params = filter_none mapped_params
      in request self net ''GET'' ''/attendanceSchedules'' (PDict filtered_params) PNone)"

definition lookup_attendance_schedules ::
  "client \<Rightarrow> network \<Rightarrow> pyval \<Rightarrow> pyval \<Rightarrow> pyval \<Rightarrow> outcome" where
  "lookup_attendance_schedules self net ids expand expand_reference_names =
     (let body = (if truthy ids then dict_literal [(''ids'', ids)] else dict_literal []);
          params = dict_literal [];
          params = (if truthy expand then dict_set params ''expand'' expand else params);
          params =
            (if truthy expand_reference_names then dict_set params ''expandReferenceNames'' expand_reference_names
             else params)
      in request self net ''POST'' ''/attendanceSchedules/lookup'' (PDict params) (PDict body))"

definition get_attendance_schedule_by_id ::
  "client \<Rightarrow> network \<Rightarrow> string \<Rightarrow> pyval \<Rightarrow> pyval \<Rightarrow> outcome" where
  "get_attendance_schedule_by_id self net schedule_id expand expand_reference_names =
     (let params = dict_literal [];
          params = (if truthy expand then dict_set params ''expand'' expand else params);
          params =
            (if truthy expand_reference_names then dict_set params ''expandReferenceNames'' expand_reference_names
             else params)
      in request self net ''GET'' (''/attendanceSchedules/'' @ schedule_id) (PDict params) PNone)"

definition get_grades ::
  "client \<Rightarrow> network \<Rightarrow> pydict \<Rightarrow> outcome" where
  "get_grades self net params =
     (let mapped_params = dict_literal
            [(''student'', dict_get params ''student''),
             (''schoolUnit'', dict_get params ''school_unit''),
             (''registeredBy'', dict_get params ''registered_by''),
             (''gradingTeacher'', dict_get params ''grading_teacher''),
             (''group'', dict_get params ''group''),
             (''registeredDate.onOrBefore'', dict_get params ''registered_date_on_or_before''),
             (''registeredDate.onOrAfter'', dict_get params ''registered_date_on_or_after''),
             (''gradeValue'', dict_get params ''grade_value''),
             (''finalGrade'', dict_get params ''final_grade''),
             (''trial'', dict_get params ''trial''),
             (''adaptedStudyPlan'', dict_get params ''adapted_study_plan''),
             (''correctionType'', dict_get params ''correction_type''),
             (''converted'', dict_get params ''converted''),
             (''semester'', dict_get params ''semester''),
             (''year.onOrBefore'', dict_get params ''year_on_or_before''),
             (''year.onOrAfter'', dict_get params ''year_on_or_after''),
             (''syllabus'', dict_get params ''syllabus''),
             (''meta.created.before'', dict_get params ''meta_created_before''),
             (''meta.created.after'', dict_get params ''meta_created_after''),
             (''meta.modified.before'', dict_get params ''meta_modified_before''),
             (''meta.modified.after'', dict_get params ''meta_modified_after''),
             (''expand'', dict_get params ''expand''),
             (''expandReferenceNames'', dict_get params ''expand_reference_names''),
             (''sortkey'', dict_get params ''sortkey''),
             (''limit'', dict_get params ''limit''),
             (''pageToken'', dict_get params ''page_token'')];
          filtered_params = filter_none mapped_params
      in request self net ''GET'' ''/grades'' (PDict filtered_params) PNone)"

definition lookup_grades ::
  "client \<Rightarrow> network \<Rightarrow> pyval \<Rightarrow> pyval \<Rightarrow> pyval \<Rightarrow> outcome" where
  "lookup_grades self net ids expand expand_reference_names =
     (let body = (if truthy ids then dict_literal [(''ids'', ids)] else dict_literal []);
          params = dict_literal [];
          params = (if truthy expand then dict_set params ''expand'' expand else params);
          params =
            (if truthy expand_reference_names then dict_set params ''expandReferenceNames'' expand_reference_names
             else params)
      in request self net ''POST'' ''/grades/lookup'' (PDict params) (PDict body))"

definition get_grade_by_id ::
  "client \<Rightarrow> network \<Rightarrow> string \<Rightarrow> pyval \<Rightarrow> pyval \<Rightarrow> outcome" where
  "get_grade_by_id self net grade_id expand expand_reference_names =
     (let params = dict_literal [];
          params = (if truthy expand then dict_set params ''expand'' expand else params);
          params =
            (if truthy expand_reference_names then dict_set params ''expandReferenceNames'' expand_reference_names
             else params)
      in request self net ''GET'' (''/grades/'' @ grade_id) (PDict params) PNone)"

definition get_aggregated_attendances ::
  "client \<Rightarrow> network \<Rightarrow> pydict \<Rightarrow> outcome" where
  "get_aggregated_attendances self net params =
     (let mapped_params = dict_literal
            [(''activity'', dict_get params ''activity''),
             (''student'', dict_get params ''student''),
             (''startDate.onOrBefore'', dict_get params ''start_date_on_or_before''),
             (''startDate.onOrAfter'', dict_get params ''start_date_on_or_after''),
             (''endDate.onOrBefore'', dict_get params ''end_date_on_or_before''),
             (''endDate.onOrAfter'', dict_get params ''end_date_on_or_after''),
             (''meta.created.before'', dict_get params ''meta_created_before''),
             (''meta.created.after'', dict_get params ''meta_created_after''),
             (''meta.modified.before'', dict_get params ''meta_modified_before''),
             (''meta.modified.after'', dict_get params ''meta_modified_after''),
             (''expand'', dict_get params ''expand''),
             (''expandReferenceNames'', dict_get params ''expand_reference_names''),
             (''sortkey'', dict_get params ''sortkey''),
             (''limit'', dict_get params ''limit''),
             (''pageToken'', dict_get params ''page_token'')];
          filtered_params = filter_none mapped_params
      in request self net ''GET'' ''/aggregatedAttendance'' (PDict filtered_params) PNone)"

definition lookup_aggregated_attendances ::
  "client \<Rightarrow> network \<Rightarrow> pyval \<Rightarrow> pyval \<Rightarrow> pyval \<Rightarrow> outcome" where
  "lookup_aggregated_attendances self net ids expand expand_reference_names =
     (let body = (if truthy ids then dict_literal [(''ids'', ids)] else dict_literal []);
          params = dict_literal [];
          params = (if truthy expand then dict_set params ''expand'' expand else params);
          params =
            (if truthy expand_reference_names then dict_set params ''expandReferenceNames'' expand_reference_names
             else params)
      in request self net ''POST'' ''/aggregatedAttendance/lookup'' (PDict params) (PDict body))"

definition get_aggregated_attendance_by_id ::
  "client \<Rightarrow> network \<Rightarrow> string \<Rightarrow> pyval \<Rightarrow> pyval \<Rightarrow> outcome" where
  "get_aggregated_attendance_by_id self net attendance_id expand expand_reference_names =
     (let params = dict_literal [];
          params = (if truthy expand then dict_set params ''expand'' expand else params);
          params =
            (if truthy expand_reference_names then dict_set params ''expandReferenceNames'' expand_reference_names
             else params)
      in request self net ''GET'' (''/aggregatedAttendance/'' @ attendance_id) (PDict params) PNone)"

definition get_resources ::
  "client \<Rightarrow> network \<Rightarrow> pydict \<Rightarrow> outcome" where
  "get_resources self net params =
     (let mapped_params = dict_literal
            [(''owner'', dict_get params ''owner''),
             (''nameContains'', dict_get params ''name_contains''),
             (''meta.created.before'', dict_get params ''meta_created_before''),
             (''meta.created.after'', dict_get params ''meta_created_after''),
             (''meta.modified.before'', dict_get params ''meta_modified_before''),
             (''meta.modified.after'', dict_get params ''meta_modified_after''),
             (''expandReferenceNames'', dict_get params ''expand_reference_names''),
             (''sortkey'', dict_get params ''sortkey''),
             (''limit'', dict_get params ''limit''),
             (''pageToken'', dict_get params ''page_token'')];
          filtered_params = filter_none mapped_params
      in request self net ''GET'' ''/resources'' (PDict filtered_params) PNone)"

definition lookup_resources ::
  "client \<Rightarrow> network \<Rightarrow> pyval \<Rightarrow> pyval \<Rightarrow> outcome" where
  "lookup_resources self net ids expand_reference_names =
     (let body = (if truthy ids then dict_literal [(''ids'', ids)] else dict_literal []);
          params =
            (if truthy expand_reference_names then dict_literal [(''expandReferenceNames'', expand_reference_names)]
             else dict_literal [])
      in request self net ''POST'' ''/resources/lookup'' (PDict params) (PDict body))"

definition get_resource_by_id ::
  "client \<Rightarrow> network \<Rightarrow> string \<Rightarrow> pyval \<Rightarrow> outcome" where
  "get_resource_by_id self net resource_id expand_reference_names =
     (let params =
            (if truthy expand_reference_names then dict_literal [(''expandReferenceNames'', expand_reference_names)]
             else dict_literal [])
      in request self net ''GET'' (''/resources/'' @ resource_id) (PDict params) PNone)"

definition get_rooms ::
  "client \<Rightarrow> network \<Rightarrow> pydict \<Rightarrow> outcome" where
  "get_rooms self net params =
     (let mapped_params = dict_literal
            [(''owner'', dict_get params ''owner''),
             (''nameContains'', dict_get params ''name_contains''),
             (''meta.created.before'', dict_get params ''meta_created_before''),
             (''meta.created.after'', dict_get params ''meta_created_after''),
             (''meta.modified.before'', dict_get params ''meta_modified_before''),
             (''meta.modified.after'', dict_get params ''meta_modified_after''),
             (''expandReferenceNames'', dict_get params ''expand_reference_names''),
             (''sortkey'', dict_get params ''sortkey''),
             (''limit'', dict_get params ''limit''),
             (''pageToken'', dict_get params ''page_token'')];
          filtered_params = filter_none mapped_params
      in request self net ''GET'' ''/rooms'' (PDict filtered_params) PNone)"

definition lookup_rooms ::
  "client \<Rightarrow> network \<Rightarrow> pyval \<Rightarrow> pyval \<Rightarrow> outcome" where
  "lookup_rooms self net ids expand_reference_names =
     (let body = (if truthy ids then dict_literal [(''ids'', ids)] else dict_literal []);
          params =
            (if truthy expand_reference_names then dict_literal [(''expandReferenceNames'', expand_reference_names)]
             else dict_literal [])
      in request self net ''POST'' ''/rooms/lookup'' (PDict params) (PDict body))"

definition get_room_by_id ::
  "client \<Rightarrow> network \<Rightarrow> string \<Rightarrow> pyval \<Rightarrow> outcome" where
  "get_room_by_id self net room_id expand_reference_names =
     (let params =
            (if truthy expand_reference_names then dict_literal [(''expandReferenceNames'', expand_reference_names)]
             else dict_literal [])
      in request self net ''GET'' (''/rooms/'' @ room_id) (PDict params) PNone)"

definition get_subscriptions ::
  "client \<Rightarrow> network \<Rightarrow> pydict \<Rightarrow> outcome" where
  "get_subscriptions self net params =
     (let mapped_params = dict_literal
            [(''limit'', dict_get params ''limit''),
             (''pageToken'', dict_get params ''page_token'')];
          filtered_params = filter_none mapped_params
      in request self net ''GET'' ''/subscriptions'' (PDict filtered_params) PNone)"

definition delete_subscription ::
  "client \<Rightarrow> network \<Rightarrow> string \<Rightarrow> outcome" where
  "delete_subscription self net subscription_id =
     request self net ''DELETE'' (''/subscriptions/'' @ subscription_id) PNone PNone"

definition get_subscription_by_id ::
  "client \<Rightarrow> network \<Rightarrow> string \<Rightarrow> outcome" where
  "get_subscription_by_id self net subscription_id =
     request self net ''GET'' (''/subscriptions/'' @ subscription_id) PNone PNone"

definition get_log ::
  "client \<Rightarrow> network \<Rightarrow> pydict \<Rightarrow> outcome" where
  "get_log self net params =
     (let mapped_params = dict_literal
            [(''source'', dict_get params ''source''),
             (''target'', dict_get params ''target''),
             (''eventType'', dict_get params ''event_type''),
             (''timestamp.onOrBefore'', dict_get params ''timestamp_on_or_before''),
             (''timestamp.onOrAfter'', dict_get params ''timestamp_on_or_after''),
             (''meta.created.before'', dict_get params ''meta_created_before''),
             (''meta.created.after'', dict_get params ''meta_created_after''),
             (''meta.modified.before'', dict_get params ''meta_modified_before''),
             (''meta.modified.after'', dict_get params ''meta_modified_after''),
             (''sortkey'', dict_get params ''sortkey''),
             (''limit'', dict_get params ''limit''),
             (''pageToken'', dict_get params ''page_token'')];
          filtered_params = filter_none mapped_params
      in request self net ''GET'' ''/log'' (PDict filtered_params) PNone)"

definition get_statistics ::
  "client \<Rightarrow> network \<Rightarrow> pydict \<Rightarrow> outcome" where
  "get_statistics self net params =
     (let mapped_params = dict_literal
            [(''source'', dict_get params ''source''),
             (''target'', dict_get params ''target''),
             (''statisticType'', dict_get params ''statistic_type''),
             (''timestamp.onOrBefore'', dict_get params ''timestamp_on_or_before''),
             (''timestamp.onOrAfter'', dict_get params ''timestamp_on_or_after''),
             (''meta.created.before'', dict_get params ''meta_created_before''),
             (''meta.created.after'', dict_get params ''meta_created_after''),
             (''meta.modified.before'', dict_get params ''meta_modified_before''),
             (''meta.modified.after'', dict_get params ''meta_modified_after''),
             (''sortkey'', dict_get params ''sortkey''),
             (''limit'', dict_get params ''limit''),
             (''pageToken'', dict_get params ''page_token'')];
          filtered_params = filter_none mapped_params
      in request self net ''GET'' ''/statistics'' (PDict filtered_params) PNone)"

text \<open>
  \<^verbatim>\<open>create_subscription\<close>, \<^verbatim>\<open>update_subscription\<close> and \<^verbatim>\<open>get_deleted_entities\<close>.
  The comprehension \<^verbatim>\<open>[{'resource': rt} for rt in resource_types]\<close> wraps each element
  of the list in turn.
\<close>

definition create_subscription ::
  "client \<Rightarrow> network \<Rightarrow> string \<Rightarrow> string \<Rightarrow> pyval list \<Rightarrow> outcome" where
  "create_subscription self net name target resource_types =
     (let body = dict_literal
            [(''name'', PStr name),
             (''target'', PStr target),
             (''resourceTypes'',
                PList (map (\<lambda>rt. PDict (dict_literal [(''resource'', rt)])) resource_types))]
      in request self net ''POST'' ''/subscriptions'' PNone (PDict body))"

definition update_subscription :: "client \<Rightarrow> network \<Rightarrow> string \<Rightarrow> string \<Rightarrow> outcome" where
  "update_subscription self net subscription_id expires =
     (let body = dict_literal [(''expires'', PStr expires)]
      in request self net ''PATCH'' (''/subscriptions/'' @ subscription_id) PNone (PDict body))"

definition get_deleted_entities :: "client \<Rightarrow> network \<Rightarrow> pyval \<Rightarrow> pyval \<Rightarrow> outcome" where
  "get_deleted_entities self net entities meta_modified_after =
     (let params = dict_literal [(''entities'', entities)];
          params =
            (if truthy meta_modified_after
             then dict_set params ''meta.modified.after'' meta_modified_after
             else params)
      in request self net ''GET'' ''/deletedEntities'' (PDict params) PNone)"

section \<open>Resources, their methods and their filter fields\<close>

text \<open>
  The client has one method per resource and operation. To speak about all of them, the
  resources are enumerated: \<open>get_list r\<close> is the list method of resource \<open>r\<close>,
  \<open>lookup r\<close> its lookup method and \<open>get_by_id r\<close> its by-id method that takes expansion
  flags (\<open>None\<close> where the client has no such method), each called with the arguments
  that method has. \<open>filter_fields r\<close> lists, in the order of the source, the wire name
  and the keyword name of every filter the list method reads, and \<open>list_path r\<close> is the
  path it requests.
\<close>

record lookup_args =
  ids_arg :: pyval
  civic_nos_arg :: pyval
  school_unit_codes_arg :: pyval
  organisation_codes_arg :: pyval
  expand_arg :: pyval
  expand_reference_names_arg :: pyval

datatype resource =
    Organisations
  | Persons
  | Placements
  | Duties
  | Groups
  | Programmes
  | StudyPlans
  | Syllabuses
  | SchoolUnitOfferings
  | Activities
  | CalendarEvents
  | Attendances
  | AttendanceEvents
  | AttendanceSchedules
  | Grades
  | AggregatedAttendances
  | Resources
  | Rooms
  | Subscriptions
  | Log
  | Statistics

fun get_list :: "resource \<Rightarrow> client \<Rightarrow> network \<Rightarrow> pydict \<Rightarrow> outcome" where
  "get_list Organisations = get_organisations"
| "get_list Persons = get_persons"
| "get_list Placements = get_placements"
| "get_list Duties = get_duties"
| "get_list Groups = get_groups"
| "get_list Programmes = get_programmes"
| "get_list StudyPlans = get_study_plans"
| "get_list Syllabuses = get_syllabuses"
| "get_list SchoolUnitOfferings = get_school_unit_offerings"
| "get_list Activities = get_activities"
| "get_list CalendarEvents = get_calendar_events"
| "get_list Attendances = get_attendances"
| "get_list AttendanceEvents = get_attendance_events"
| "get_list AttendanceSchedules = get_attendance_schedules"
| "get_list Grades = get_grades"
| "get_list AggregatedAttendances = get_aggregated_attendances"
| "get_list Resources = get_resources"
| "get_list Rooms = get_rooms"
| "get_list Subscriptions = get_subscriptions"
| "get_list Log = get_log"
| "get_list Statistics = get_statistics"

fun list_path :: "resource \<Rightarrow> string" where
  "list_path Organisations = ''/organisations''"
| "list_path Persons = ''/persons''"
| "list_path Placements = ''/placements''"
| "list_path Duties = ''/duties''"
| "list_path Groups = ''/groups''"
| "list_path Programmes = ''/programmes''"
| "list_path StudyPlans = ''/studyplans''"
| "list_path Syllabuses = ''/syllabuses''"
| "list_path SchoolUnitOfferings = ''/schoolUnitOfferings''"
| "list_path Activities = ''/activities''"
| "list_path CalendarEvents = ''/calendarEvents''"
| "list_path Attendances = ''/attendances''"
| "list_path AttendanceEvents = ''/attendanceEvents''"
| "list_path AttendanceSchedules = ''/attendanceSchedules''"
| "list_path Grades = ''/grades''"
| "list_path AggregatedAttendances = ''/aggregatedAttendance''"
| "list_path Resources = ''/resources''"
| "list_path Rooms = ''/rooms''"
| "list_path Subscriptions = ''/subscriptions''"
| "list_path Log = ''/log''"
| "list_path Statistics = ''/statistics''"

fun filter_fields :: "resource \<Rightarrow> (string \<times> string) list" where
  "filter_fields Organisations =
     [(''parent'', ''parent''),
      (''schoolUnitCode'', ''school_unit_code''),
      (''organisationCode'', ''organisation_code''),
      (''municipalityCode'', ''municipality_code''),
      (''type'', ''type''),
      (''schoolTypes'', ''school_types''),
      (''startDate.onOrBefore'', ''start_date_on_or_before''),
      (''startDate.onOrAfter'', ''start_date_on_or_after''),
      (''endDate.onOrBefore'', ''end_date_on_or_before''),
      (''endDate.onOrAfter'', ''end_date_on_or_after''),
      (''meta.created.before'', ''meta_created_before''),
      (''meta.created.after'', ''meta_created_after''),
      (''meta.modified.before'', ''meta_modified_before''),
      (''meta.modified.after'', ''meta_modified_after''),
      (''expandReferenceNames'', ''expand_reference_names''),
      (''sortkey'', ''sortkey''),
      (''limit'', ''limit''),
      (''pageToken'', ''page_token'')]"
| "filter_fields Persons =
     [(''nameContains'', ''name_contains''),
      (''civicNo'', ''civic_no''),
      (''eduPersonPrincipalName'', ''edu_person_principal_name''),
      (''identifier.value'', ''identifier_value''),
      (''identifier.context'', ''identifier_context''),
      (''relationship.entity.type'', ''relationship_entity_type''),
      (''relationship.organisation'', ''relationship_organisation''),
      (''relationship.startDate.onOrBefore'', ''relationship_start_date_on_or_before''),
      (''relationship.startDate.onOrAfter'', ''relationship_start_date_on_or_after''),
      (''relationship.endDate.onOrBefore'', ''relationship_end_date_on_or_before''),
      (''relationship.endDate.onOrAfter'', ''relationship_end_date_on_or_after''),
      (''meta.created.before'', ''meta_created_before''),
      (''meta.created.after'', ''meta_created_after''),
      (''meta.modified.before'', ''meta_modified_before''),
      (''meta.modified.after'', ''meta_modified_after''),
      (''expand'', ''expand''),
      (''expandReferenceNames'', ''expand_reference_names''),
      (''sortkey'', ''sortkey''),
      (''limit'', ''limit''),
      (''pageToken'', ''page_token'')]"
| "filter_fields Placements =
     [(''child'', ''child''),
      (''group'', ''group''),
      (''owner'', ''owner''),
      (''placedAt'', ''placed_at''),
      (''schoolType'', ''school_type''),
      (''startDate.onOrBefore'', ''start_date_on_or_before''),
      (''startDate.onOrAfter'', ''start_date_on_or_after''),
      (''endDate.onOrBefore'', ''end_date_on_or_before''),
      (''endDate.onOrAfter'', ''end_date_on_or_after''),
      (''meta.created.before'', ''meta_created_before''),
      (''meta.created.after'', ''meta_created_after''),
      (''meta.modified.before'', ''meta_modified_before''),
      (''meta.modified.after'', ''meta_modified_after''),
      (''expand'', ''expand''),
      (''expandReferenceNames'', ''expand_reference_names''),
      (''sortkey'', ''sortkey''),
      (''limit'', ''limit''),
      (''pageToken'', ''page_token'')]"
| "filter_fields Duties =
     [(''person'', ''person''),
      (''dutyAt'', ''duty_at''),
      (''dutyRole'', ''duty_role''),
      (''signature'', ''signature''),
      (''startDate.onOrBefore'', ''start_date_on_or_before''),
      (''startDate.onOrAfter'', ''start_date_on_or_after''),
      (''endDate.onOrBefore'', ''end_date_on_or_before''),
      (''endDate.onOrAfter'', ''end_date_on_or_after''),
      (''meta.created.before'', ''meta_created_before''),
      (''meta.created.after'', ''meta_created_after''),
      (''meta.modified.before'', ''meta_modified_before''),
      (''meta.modified.after'', ''meta_modified_after''),
      (''expand'', ''expand''),
      (''expandReferenceNames'', ''expand_reference_names''),
      (''sortkey'', ''sortkey''),
      (''limit'', ''limit''),
      (''pageToken'', ''page_token'')]"
| "filter_fields Groups =
     [(''groupType'', ''group_type''),
      (''schoolType'', ''school_type''),
      (''organisation'', ''organisation''),
      (''startDate.onOrBefore'', ''start_date_on_or_before''),
      (''startDate.onOrAfter'', ''start_date_on_or_after''),
      (''endDate.onOrBefore'', ''end_date_on_or_before''),
      (''endDate.onOrAfter'', ''end_date_on_or_after''),
      (''meta.created.before'', ''meta_created_before''),
      (''meta.created.after'', ''meta_created_after''),
      (''meta.modified.before'', ''meta_modified_before''),
      (''meta.modified.after'', ''meta_modified_after''),
      (''expand'', ''expand''),
      (''expandReferenceNames'', ''expand_reference_names''),
      (''sortkey'', ''sortkey''),
      (''limit'', ''limit''),
      (''pageToken'', ''page_token'')]"
| "filter_fields Programmes =
     [(''nameContains'', ''name_contains''),
      (''type'', ''type''),
      (''parentProgramme'', ''parent_programme''),
      (''schoolType'', ''school_type''),
      (''code'', ''code''),
      (''meta.created.before'', ''meta_created_before''),
      (''meta.created.after'', ''meta_created_after''),
      (''meta.modified.before'', ''meta_modified_before''),
      (''meta.modified.after'', ''meta_modified_after''),
      (''expand'', ''expand''),
      (''expandReferenceNames'', ''expand_reference_names''),
      (''sortkey'', ''sortkey''),
      (''limit'', ''limit''),
      (''pageToken'', ''page_token'')]"
| "filter_fields StudyPlans =
     [(''student'', ''student''),
      (''startDate.onOrBefore'', ''start_date_on_or_before''),
      (''startDate.onOrAfter'', ''start_date_on_or_after''),
      (''endDate.onOrBefore'', ''end_date_on_or_before''),
      (''endDate.onOrAfter'', ''end_date_on_or_after''),
      (''meta.created.before'', ''meta_created_before''),
      (''meta.created.after'', ''meta_created_after''),
      (''meta.modified.before'', ''meta_modified_before''),
      (''meta.modified.after'', ''meta_modified_after''),
      (''expand'', ''expand''),
      (''expandReferenceNames'', ''expand_reference_names''),
      (''sortkey'', ''sortkey''),
      (''limit'', ''limit''),
      (''pageToken'', ''page_token'')]"
| "filter_fields Syllabuses =
     [(''schoolType'', ''school_type''),
      (''subjectCode'', ''subject_code''),
      (''subjectNameContains'', ''subject_name_contains''),
      (''subjectDesignation'', ''subject_designation''),
      (''courseCode'', ''course_code''),
      (''courseNameContains'', ''course_name_contains''),
      (''startSchoolYear.onOrBefore'', ''start_school_year_on_or_before''),
      (''startSchoolYear.onOrAfter'', ''start_school_year_on_or_after''),
      (''endSchoolYear.onOrBefore'', ''end_school_year_on_or_before''),
      (''endSchoolYear.onOrAfter'', ''end_school_year_on_or_after''),
      (''points.onOrBefore'', ''points_on_or_before''),
      (''points.onOrAfter'', ''points_on_or_after''),
      (''curriculum'', ''curriculum''),
      (''languageCode'', ''language_code''),
      (''official'', ''official''),
      (''meta.created.before'', ''meta_created_before''),
      (''meta.created.after'', ''meta_created_after''),
      (''meta.modified.before'', ''meta_modified_before''),
      (''meta.modified.after'', ''meta_modified_after''),
      (''expandReferenceNames'', ''expand_reference_names''),
      (''sortkey'', ''sortkey''),
      (''limit'', ''limit''),
      (''pageToken'', ''page_token'')]"
| "filter_fields SchoolUnitOfferings =
     [(''offeredAt'', ''offered_at''),
      (''offeredSyllabuses'', ''offered_syllabuses''),
      (''offeredProgrammes'', ''offered_programmes''),
      (''startDate.onOrBefore'', ''start_date_on_or_before''),
      (''startDate.onOrAfter'', ''start_date_on_or_after''),
      (''endDate.onOrBefore'', ''end_date_on_or_before''),
      (''endDate.onOrAfter'', ''end_date_on_or_after''),
      (''meta.created.before'', ''meta_created_before''),
      (''meta.created.after'', ''meta_created_after''),
      (''meta.modified.before'', ''meta_modified_before''),
      (''meta.modified.after'', ''meta_modified_after''),
      (''expand'', ''expand''),
      (''expandReferenceNames'', ''expand_reference_names''),
      (''sortkey'', ''sortkey''),
      (''limit'', ''limit''),
      (''pageToken'', ''page_token'')]"
| "filter_fields Activities =
     [(''organisation'', ''organisation''),
      (''syllabus'', ''syllabus''),
      (''activityType'', ''activity_type''),
      (''calendarEventsRequired'', ''calendar_events_required''),
      (''startDate.onOrBefore'', ''start_date_on_or_before''),
      (''startDate.onOrAfter'', ''start_date_on_or_after''),
      (''endDate.onOrBefore'', ''end_date_on_or_before''),
      (''endDate.onOrAfter'', ''end_date_on_or_after''),
      (''meta.created.before'', ''meta_created_before''),
      (''meta.created.after'', ''meta_created_after''),
      (''meta.modified.before'', ''meta_modified_before''),
      (''meta.modified.after'', ''meta_modified_after''),
      (''expand'', ''expand''),
      (''expandReferenceNames'', ''expand_reference_names''),
      (''sortkey'', ''sortkey''),
      (''limit'', ''limit''),
      (''pageToken'', ''page_token'')]"
| "filter_fields CalendarEvents =
     [(''activity'', ''activity''),
      (''startTime.onOrBefore'', ''start_time_on_or_before''),
      (''startTime.onOrAfter'', ''start_time_on_or_after''),
      (''endTime.onOrBefore'', ''end_time_on_or_before''),
      (''endTime.onOrAfter'', ''end_time_on_or_after''),
      (''cancelled'', ''cancelled''),
      (''room'', ''room''),
      (''resource'', ''resource''),
      (''meta.created.before'', ''meta_created_before''),
      (''meta.created.after'', ''meta_created_after''),
      (''meta.modified.before'', ''meta_modified_before''),
      (''meta.modified.after'', ''meta_modified_after''),
      (''expand'', ''expand''),
      (''expandReferenceNames'', ''expand_reference_names''),
      (''sortkey'', ''sortkey''),
      (''limit'', ''limit''),
      (''pageToken'', ''page_token'')]"
| "filter_fields Attendances =
     [(''calendarEvent'', ''calendar_event''),
      (''student'', ''student''),
      (''reporter'', ''reporter''),
      (''isReported'', ''is_reported''),
      (''reportedTimestamp.onOrBefore'', ''reported_timestamp_on_or_before''),
      (''reportedTimestamp.onOrAfter'', ''reported_timestamp_on_or_after''),
      (''meta.created.before'', ''meta_created_before''),
      (''meta.created.after'', ''meta_created_after''),
      (''meta.modified.before'', ''meta_modified_before''),
      (''meta.modified.after'', ''meta_modified_after''),
      (''expand'', ''expand''),
      (''expandReferenceNames'', ''expand_reference_names''),
      (''sortkey'', ''sortkey''),
      (''limit'', ''limit''),
      (''pageToken'', ''page_token'')]"
| "filter_fields AttendanceEvents =
     [(''person'', ''person''),
      (''registeredBy'', ''registered_by''),
      (''group'', ''group''),
      (''room'', ''room''),
      (''time.onOrBefore'', ''time_on_or_before''),
      (''time.onOrAfter'', ''time_on_or_after''),
      (''eventType'', ''event_type''),
      (''meta.created.before'', ''meta_created_before''),
      (''meta.created.after'', ''meta_created_after''),
      (''meta.modified.before'', ''meta_modified_before''),
      (''meta.modified.after'', ''meta_modified_after''),
      (''expand'', ''expand''),
      (''expandReferenceNames'', ''expand_reference_names''),
      (''sortkey'', ''sortkey''),
      (''limit'', ''limit''),
      (''pageToken'', ''page_token'')]"
| "filter_fields AttendanceSchedules =
     [(''placement'', ''placement''),
      (''numberOfWeeks.onOrBefore'', ''number_of_weeks_on_or_before''),
      (''numberOfWeeks.onOrAfter'', ''number_of_weeks_on_or_after''),
      (''startDate.onOrBefore'', ''start_date_on_or_before''),
      (''startDate.onOrAfter'', ''start_date_on_or_after''),
      (''endDate.onOrBefore'', ''end_date_on_or_before''),
      (''endDate.onOrAfter'', ''end_date_on_or_after''),
      (''temporary'', ''temporary''),
      (''state'', ''state''),
      (''meta.created.before'', ''meta_created_before''),
      (''meta.created.after'', ''meta_created_after''),
      (''meta.modified.before'', ''meta_modified_before''),
      (''meta.modified.after'', ''meta_modified_after''),
      (''expand'', ''expand''),
      (''expandReferenceNames'', ''expand_reference_names''),
      (''sortkey'', ''sortkey''),
      (''limit'', ''limit''),
      (''pageToken'', ''page_token'')]"
| "filter_fields Grades =
     [(''student'', ''student''),
      (''schoolUnit'', ''school_unit''),
      (''registeredBy'', ''registered_by''),
      (''gradingTeacher'', ''grading_teacher''),
      (''group'', ''group''),
      (''registeredDate.onOrBefore'', ''registered_date_on_or_before''),
      (''registeredDate.onOrAfter'', ''registered_date_on_or_after''),
      (''gradeValue'', ''grade_value''),
      (''finalGrade'', ''final_grade''),
      (''trial'', ''trial''),
      (''adaptedStudyPlan'', ''adapted_study_plan''),
      (''correctionType'', ''correction_type''),
      (''converted'', ''converted''),
      (''semester'', ''semester''),
      (''year.onOrBefore'', ''year_on_or_before''),
      (''year.onOrAfter'', ''year_on_or_after''),
      (''syllabus'', ''syllabus''),
      (''meta.created.before'', ''meta_created_before''),
      (''meta.created.after'', ''meta_created_after''),
      (''meta.modified.before'', ''meta_modified_before''),
      (''meta.modified.after'', ''meta_modified_after''),
      (''expand'', ''expand''),
      (''expandReferenceNames'', ''expand_reference_names''),
      (''sortkey'', ''sortkey''),
      (''limit'', ''limit''),
      (''pageToken'', ''page_token'')]"
| "filter_fields AggregatedAttendances =
     [(''activity'', ''activity''),
      (''student'', ''student''),
      (''startDate.onOrBefore'', ''start_date_on_or_before''),
      (''startDate.onOrAfter'', ''start_date_on_or_after''),
      (''endDate.onOrBefore'', ''end_date_on_or_before''),
      (''endDate.onOrAfter'', ''end_date_on_or_after''),
      (''meta.created.before'', ''meta_created_before''),
      (''meta.created.after'', ''meta_created_after''),
      (''meta.modified.before'', ''meta_modified_before''),
      (''meta.modified.after'', ''meta_modified_after''),
      (''expand'', ''expand''),
      (''expandReferenceNames'', ''expand_reference_names''),
      (''sortkey'', ''sortkey''),
      (''limit'', ''limit''),
      (''pageToken'', ''page_token'')]"
| "filter_fields Resources =
     [(''owner'', ''owner''),
      (''nameContains'', ''name_contains''),
      (''meta.created.before'', ''meta_created_before''),
      (''meta.created.after'', ''meta_created_after''),
      (''meta.modified.before'', ''meta_modified_before''),
      (''meta.modified.after'', ''meta_modified_after''),
      (''expandReferenceNames'', ''expand_reference_names''),
      (''sortkey'', ''sortkey''),
      (''limit'', ''limit''),
      (''pageToken'', ''page_token'')]"
| "filter_fields Rooms =
     [(''owner'', ''owner''),
      (''nameContains'', ''name_contains''),
      (''meta.created.before'', ''meta_created_before''),
      (''meta.created.after'', ''meta_created_after''),
      (''meta.modified.before'', ''meta_modified_before''),
      (''meta.modified.after'', ''meta_modified_after''),
      (''expandReferenceNames'', ''expand_reference_names''),
      (''sortkey'', ''sortkey''),
      (''limit'', ''limit''),
      (''pageToken'', ''page_token'')]"
| "filter_fields Subscriptions =
     [(''limit'', ''limit''),
      (''pageToken'', ''page_token'')]"
| "filter_fields Log =
     [(''source'', ''source''),
      (''target'', ''target''),
      (''eventType'', ''event_type''),
      (''timestamp.onOrBefore'', ''timestamp_on_or_before''),
      (''timestamp.onOrAfter'', ''timestamp_on_or_after''),
      (''meta.created.before'', ''meta_created_before''),
      (''meta.created.after'', ''meta_created_after''),
      (''meta.modified.before'', ''meta_modified_before''),
      (''meta.modified.after'', ''meta_modified_after''),
      (''sortkey'', ''sortkey''),
      (''limit'', ''limit''),
      (''pageToken'', ''page_token'')]"
| "filter_fields Statistics =
     [(''source'', ''source''),
      (''target'', ''target''),
      (''statisticType'', ''statistic_type''),
      (''timestamp.onOrBefore'', ''timestamp_on_or_before''),
      (''timestamp.onOrAfter'', ''timestamp_on_or_after''),
      (''meta.created.before'', ''meta_created_before''),
      (''meta.created.after'', ''meta_created_after''),
      (''meta.modified.before'', ''meta_modified_before''),
      (''meta.modified.after'', ''meta_modified_after''),
      (''sortkey'', ''sortkey''),
      (''limit'', ''limit''),
      (''pageToken'', ''page_token'')]"

fun lookup :: "resource \<Rightarrow> client \<Rightarrow> network \<Rightarrow> lookup_args \<Rightarrow> outcome option" where
  "lookup Organisations self net a =
     Some (lookup_organisations self net (ids_arg a) (school_unit_codes_arg a) (organisation_codes_arg a) (expand_reference_names_arg a))"
| "lookup Persons self net a =
     Some (lookup_persons self net (ids_arg a) (civic_nos_arg a) (expand_arg a) (expand_reference_names_arg a))"
| "lookup Placements self net a =
     Some (lookup_placements self net (ids_arg a) (expand_arg a) (expand_reference_names_arg a))"
| "lookup Duties self net a =
     Some (lookup_duties self net (ids_arg a) (expand_arg a) (expand_reference_names_arg a))"
| "lookup Groups self net a =
     Some (lookup_groups self net (ids_arg a) (expand_arg a) (expand_reference_names_arg a))"
| "lookup Programmes self net a =
     Some (lookup_programmes self net (ids_arg a) (expand_arg a) (expand_reference_names_arg a))"
| "lookup StudyPlans self net a =
     Some (lookup_study_plans self net (ids_arg a) (expand_arg a) (expand_reference_names_arg a))"
| "lookup Syllabuses self net a =
     Some (lookup_syllabuses self net (ids_arg a) (expand_reference_names_arg a))"
| "lookup SchoolUnitOfferings self net a =
     Some (lookup_school_unit_offerings self net (ids_arg a) (expand_arg a) (expand_reference_names_arg a))"
| "lookup Activities self net a =
     Some (lookup_activities self net (ids_arg a) (expand_arg a) (expand_reference_names_arg a))"
| "lookup CalendarEvents self net a =
     Some (lookup_calendar_events self net (ids_arg a) (expand_arg a) (expand_reference_names_arg a))"
| "lookup Attendances self net a =
     Some (lookup_attendances self net (ids_arg a) (expand_arg a) (expand_reference_names_arg a))"
| "lookup AttendanceEvents self net a =
     Some (lookup_attendance_events self net (ids_arg a) (expand_arg a) (expand_reference_names_arg a))"
| "lookup AttendanceSchedules self net a =
     Some (lookup_attendance_schedules self net (ids_arg a) (expand_arg a) (expand_reference_names_arg a))"
| "lookup Grades self net a =
     Some (lookup_grades self net (ids_arg a) (expand_arg a) (expand_reference_names_arg a))"
| "lookup AggregatedAttendances self net a =
     Some (lookup_aggregated_attendances self net (ids_arg a) (expand_arg a) (expand_reference_names_arg a))"
| "lookup Resources self net a =
     Some (lookup_resources self net (ids_arg a) (expand_reference_names_arg a))"
| "lookup Rooms self net a =
     Some (lookup_rooms self net (ids_arg a) (expand_reference_names_arg a))"
| "lookup Subscriptions self net a = None"
| "lookup Log self net a = None"
| "lookup Statistics self net a = None"

fun get_by_id :: "resource \<Rightarrow> client \<Rightarrow> network \<Rightarrow> string \<Rightarrow> pyval \<Rightarrow> pyval \<Rightarrow> outcome option" where
  "get_by_id Organisations self net entity_id expand expand_reference_names =
     Some (get_organisation_by_id self net entity_id expand_reference_names)"
| "get_by_id Persons self net entity_id expand expand_reference_names =
     Some (get_person_by_id self net entity_id expand expand_reference_names)"
| "get_by_id Placements self net entity_id expand expand_reference_names =
     Some (get_placement_by_id self net entity_id expand expand_reference_names)"
| "get_by_id Duties self net entity_id expand expand_reference_names =
     Some (get_duty_by_id self net entity_id expand expand_reference_names)"
| "get_by_id Groups self net entity_id expand expand_reference_names =
     Some (get_group_by_id self net entity_id expand expand_reference_names)"
| "get_by_id Programmes self net entity_id expand expand_reference_names =
     Some (get_programme_by_id self net entity_id expand expand_reference_names)"
| "get_by_id StudyPlans self net entity_id expand expand_reference_names =
     Some (get_study_plan_by_id self net entity_id expand expand_reference_names)"
| "get_by_id Syllabuses self net entity_id expand expand_reference_names =
     Some (get_syllabus_by_id self net entity_id expand_reference_names)"
| "get_by_id SchoolUnitOfferings self net entity_id expand expand_reference_names =
     Some (get_school_unit_offering_by_id self net entity_id expand expand_reference_names)"
| "get_by_id Activities self net entity_id expand expand_reference_names =
     Some (get_activity_by_id self net entity_id expand expand_reference_names)"
| "get_by_id CalendarEvents self net entity_id expand expand_reference_names =
     Some (get_calendar_event_by_id self net entity_id expand expand_reference_names)"
| "get_by_id Attendances self net entity_id expand expand_reference_names =
     Some (get_attendance_by_id self net entity_id expand expand_reference_names)"
| "get_by_id AttendanceEvents self net entity_id expand expand_reference_names =
     Some (get_attendance_event_by_id self net entity_id expand expand_reference_names)"
| "get_by_id AttendanceSchedules self net entity_id expand expand_reference_names =
     Some (get_attendance_schedule_by_id self net entity_id expand expand_reference_names)"
| "get_by_id Grades self net entity_id expand expand_reference_names =
     Some (get_grade_by_id self net entity_id expand expand_reference_names)"
| "get_by_id AggregatedAttendances self net entity_id expand expand_reference_names =
     Some (get_aggregated_attendance_by_id self net entity_id expand expand_reference_names)"
| "get_by_id Resources self net entity_id expand expand_reference_names =
     Some (get_resource_by_id self net entity_id expand_reference_names)"
| "get_by_id Rooms self net entity_id expand expand_reference_names =
     Some (get_room_by_id self net entity_id expand_reference_names)"
| "get_by_id Subscriptions self net entity_id expand expand_reference_names = None"
| "get_by_id Log self net entity_id expand expand_reference_names = None"
| "get_by_id Statistics self net entity_id expand expand_reference_names = None"

definition takes_expand :: "resource \<Rightarrow> bool" where
  "takes_expand r = (r \<in> {Persons, Placements, Duties, Groups, Programmes, StudyPlans, SchoolUnitOfferings,
       Activities, CalendarEvents, Attendances, AttendanceEvents, AttendanceSchedules,
       Grades, AggregatedAttendances})"

section \<open>Notions used to state the properties\<close>

text \<open>The value a dictionary holds under a key (\<open>None\<close>: the key is not in it).\<close>

fun item_of :: "pyval \<Rightarrow> string \<Rightarrow> pyval option" where
  "item_of (PDict d) k = map_of d k"
| "item_of _ k = None"

text \<open>
  The query a list method sends, read off its table of filters: the wire name of every
  filter whose keyword argument is not \<^verbatim>\<open>None\<close>, with that argument, in table order.
  The methods are shown to send exactly this (\<open>get_list_query\<close> below).
\<close>

definition query_of :: "(string \<times> string) list \<Rightarrow> pydict \<Rightarrow> pydict" where
  "query_of table kw =
     filter (\<lambda>(k, v). v \<noteq> PNone) (map (\<lambda>(wire, field). (wire, dict_get kw field)) table)"

text \<open>The keyword names a list method reads.\<close>

definition accepted :: "resource \<Rightarrow> string set" where
  "accepted r = snd ` set (filter_fields r)"









text \<open>The entries of a dictionary built by \<^verbatim>\<open>if v: d[k] = v\<close> steps: those with a true value.\<close>

definition truthy_items :: "(string \<times> pyval) list \<Rightarrow> pydict" where
  "truthy_items entries = filter (\<lambda>(k, v). truthy v) entries"

text \<open>The body and the query of a lookup, read off the parameters its method has.\<close>

definition lookup_body :: "resource \<Rightarrow> lookup_args \<Rightarrow> pydict" where
  "lookup_body r a =
     truthy_items
       ((''ids'', ids_arg a) #
        (if r = Organisations
         then [(''schoolUnitCodes'', school_unit_codes_arg a),
               (''organisationCodes'', organisation_codes_arg a)]
         else if r = Persons then [(''civicNos'', civic_nos_arg a)]
         else []))"

definition expand_query :: "resource \<Rightarrow> pyval \<Rightarrow> pyval \<Rightarrow> pydict" where
  "expand_query r expand expand_reference_names =
     truthy_items
       ((if takes_expand r then [(''expand'', expand)] else [])
        @ [(''expandReferenceNames'', expand_reference_names)])"

text \<open>
  Concrete inputs: the client of the source's example (\<^verbatim>\<open>BASE_URL\<close>,
  \<^verbatim>\<open>AUTH_TOKEN\<close>), a network that answers every request with one response, and some
  responses. The last one is a 404 whose body is 100000 opening brackets: CPython's
  decoder raises \<^verbatim>\<open>RecursionError\<close> on it, not \<^verbatim>\<open>JSONDecodeError\<close>.
\<close>

definition example_client :: client where
  "example_client =
     \<lparr>base_url = ''https://some.server.se/v2.0'',
      headers = [(''Content-Type'', ''application/json''), (''Accept'', ''application/json''),
                 (''Authorization'', ''Bearer YOUR_JWT_TOKEN_HERE'')]\<rparr>"

definition reply :: "http_response \<Rightarrow> network" where
  "reply r = (\<lambda>req. Inr r)"

definition no_content_response :: http_response where
  "no_content_response = \<lparr>status_code = 204, body_text = [], json_value = NotJson\<rparr>"

definition json_null_response :: http_response where
  "json_null_response =
     \<lparr>status_code = 200, body_text = ''null'', json_value = Decoded PNone\<rparr>"

definition empty_object_response :: http_response where
  "empty_object_response =
     \<lparr>status_code = 200, body_text = ''{}'', json_value = Decoded (PDict [])\<rparr>"

definition not_found_json_response :: http_response where
  "not_found_json_response =
     \<lparr>status_code = 404, body_text = ''{\"error\":\"not found\"}'',
      json_value = Decoded (PDict [(''error'', PStr ''not found'')])\<rparr>"

definition not_found_html_response :: http_response where
  "not_found_html_response =
     \<lparr>status_code = 404, body_text = ''<html>Not Found</html>'', json_value = NotJson\<rparr>"

definition deep_body_response :: http_response where
  "deep_body_response =
     \<lparr>status_code = 404, body_text = replicate 100000 CHR ''['',
      json_value = DecodeCrash ''RecursionError''\<rparr>"

section \<open>Dictionaries built from distinct keys\<close>

lemma update_fresh: "k \<notin> fst ` set d \<Longrightarrow> AList.update k v d = d @ [(k, v)]"
  by (induction d) auto

lemma foldl_set_distinct:
  "distinct (map fst (acc @ xs)) \<Longrightarrow>
   foldl (\<lambda>d (k, v). dict_set d k v) acc xs = acc @ xs"
proof (induction xs arbitrary: acc)
  case Nil
  then show ?case by simp
next
  case (Cons x xs)
  obtain k v where x: "x = (k, v)" by (cases x)
  from Cons.prems have fresh: "k \<notin> fst ` set acc" by (auto simp: x)
  from Cons.prems have "distinct (map fst ((acc @ [(k, v)]) @ xs))" by (simp add: x)
  from Cons.IH [OF this] show ?case
    by (simp add: x dict_set_def update_fresh [OF fresh])
qed

lemma dict_literal_distinct: "distinct (map fst xs) \<Longrightarrow> dict_literal xs = xs"
  using foldl_set_distinct [of "[]" xs] by (simp add: dict_literal_def)

lemma foldl_filter_none:
  "distinct (map fst (acc @ xs)) \<Longrightarrow>
   foldl (\<lambda>acc (k, v). if v \<noteq> PNone then dict_set acc k v else acc) acc xs
     = acc @ filter (\<lambda>(k, v). v \<noteq> PNone) xs"
proof (induction xs arbitrary: acc)
  case Nil
  then show ?case by simp
next
  case (Cons x xs)
  obtain k v where x: "x = (k, v)" by (cases x)
  from Cons.prems have fresh: "k \<notin> fst ` set acc" by (auto simp: x)
  show ?case
  proof (cases "v = PNone")
    case True
    from Cons.prems have "distinct (map fst (acc @ xs))" by (simp add: x)
    from Cons.IH [OF this] show ?thesis by (simp add: x True)
  next
    case False
    from Cons.prems have "distinct (map fst ((acc @ [(k, v)]) @ xs))" by (simp add: x)
    from Cons.IH [OF this] show ?thesis
      by (simp add: x False dict_set_def update_fresh [OF fresh])
  qed
qed

lemma filter_none_distinct:
  "distinct (map fst d) \<Longrightarrow> filter_none d = filter (\<lambda>(k, v). v \<noteq> PNone) d"
  using foldl_filter_none [of "[]" d] by (simp add: filter_none_def)

lemma mapped_params_query:
  assumes "distinct (map fst table)"
  shows "filter_none (dict_literal (map (\<lambda>(wire, field). (wire, dict_get kw field)) table))
           = query_of table kw"
proof -
  have "map fst (map (\<lambda>(wire, field). (wire, dict_get kw field)) table) = map fst table"
    by (induction table) auto
  with assms
  have d: "distinct (map fst (map (\<lambda>(wire, field). (wire, dict_get kw field)) table))"
    by (simp only:)
  show ?thesis
    by (simp only: dict_literal_distinct [OF d] filter_none_distinct [OF d] query_of_def)
qed

section \<open>What the dispatcher sends\<close>

lemma sent_request:
  "sent (request self net method path params json_data) =
     \<lparr>req_method = method, req_url = urljoin (base_url self) path, req_params = params,
      req_json = json_data, req_headers = headers self, req_timeout = 30\<rparr>"
  by (simp add: request_def handle_exception_def Let_def
        split: sum.split option.split prod.split json_outcome.split)

section \<open>The list methods send the query of their table\<close>

lemma filter_fields_distinct: "distinct (map fst (filter_fields r))"
  by (cases r) simp_all

lemma get_organisations_query:
  "get_organisations self net kw =
     request self net ''GET'' (list_path Organisations) (PDict (query_of (filter_fields Organisations) kw)) PNone"
  using mapped_params_query [OF filter_fields_distinct [of Organisations], of kw]
  by (simp add: get_organisations_def)

lemma get_persons_query:
  "get_persons self net kw =
     request self net ''GET'' (list_path Persons) (PDict (query_of (filter_fields Persons) kw)) PNone"
  using mapped_params_query [OF filter_fields_distinct [of Persons], of kw]
  by (simp add: get_persons_def)

lemma get_placements_query:
  "get_placements self net kw =
     request self net ''GET'' (list_path Placements) (PDict (query_of (filter_fields Placements) kw)) PNone"
  using mapped_params_query [OF filter_fields_distinct [of Placements], of kw]
  by (simp add: get_placements_def)

lemma get_duties_query:
  "get_duties self net kw =
     request self net ''GET'' (list_path Duties) (PDict (query_of (filter_fields Duties) kw)) PNone"
  using mapped_params_query [OF filter_fields_distinct [of Duties], of kw]
  by (simp add: get_duties_def)

lemma get_groups_query:
  "get_groups self net kw =
     request self net ''GET'' (list_path Groups) (PDict (query_of (filter_fields Groups) kw)) PNone"
  using mapped_params_query [OF filter_fields_distinct [of Groups], of kw]
  by (simp add: get_groups_def)

lemma get_programmes_query:
  "get_programmes self net kw =
     request self net ''GET'' (list_path Programmes) (PDict (query_of (filter_fields Programmes) kw)) PNone"
  using mapped_params_query [OF filter_fields_distinct [of Programmes], of kw]
  by (simp add: get_programmes_def)

lemma get_study_plans_query:
  "get_study_plans self net kw =
     request self net ''GET'' (list_path StudyPlans) (PDict (query_of (filter_fields StudyPlans) kw)) PNone"
  using mapped_params_query [OF filter_fields_distinct [of StudyPlans], of kw]
  by (simp add: get_study_plans_def)

lemma get_syllabuses_query:
  "get_syllabuses self net kw =
     request self net ''GET'' (list_path Syllabuses) (PDict (query_of (filter_fields Syllabuses) kw)) PNone"
  using mapped_params_query [OF filter_fields_distinct [of Syllabuses], of kw]
  by (simp add: get_syllabuses_def)

lemma get_school_unit_offerings_query:
  "get_school_unit_offerings self net kw =
     request self net ''GET'' (list_path SchoolUnitOfferings) (PDict (query_of (filter_fields SchoolUnitOfferings) kw)) PNone"
  using mapped_params_query [OF filter_fields_distinct [of SchoolUnitOfferings], of kw]
  by (simp add: get_school_unit_offerings_def)

lemma get_activities_query:
  "get_activities self net kw =
     request self net ''GET'' (list_path Activities) (PDict (query_of (filter_fields Activities) kw)) PNone"
  using mapped_params_query [OF filter_fields_distinct [of Activities], of kw]
  by (simp add: get_activities_def)

lemma get_calendar_events_query:
  "get_calendar_events self net kw =
     request self net ''GET'' (list_path CalendarEvents) (PDict (query_of (filter_fields CalendarEvents) kw)) PNone"
  using mapped_params_query [OF filter_fields_distinct [of CalendarEvents], of kw]
  by (simp add: get_calendar_events_def)

lemma get_attendances_query:
  "get_attendances self net kw =
     request self net ''GET'' (list_path Attendances) (PDict (query_of (filter_fields Attendances) kw)) PNone"
  using mapped_params_query [OF filter_fields_distinct [of Attendances], of kw]
  by (simp add: get_attendances_def)

lemma get_attendance_events_query:
  "get_attendance_events self net kw =
     request self net ''GET'' (list_path AttendanceEvents) (PDict (query_of (filter_fields AttendanceEvents) kw)) PNone"
  using mapped_params_query [OF filter_fields_distinct [of AttendanceEvents], of kw]
  by (simp add: get_attendance_events_def)

lemma get_attendance_schedules_query:
  "get_attendance_schedules self net kw =
     request self net ''GET'' (list_path AttendanceSchedules) (PDict (query_of (filter_fields AttendanceSchedules) kw)) PNone"
  using mapped_params_query [OF filter_fields_distinct [of AttendanceSchedules], of kw]
  by (simp add: get_attendance_schedules_def)

lemma get_grades_query:
  "get_grades self net kw =
     request self net ''GET'' (list_path Grades) (PDict (query_of (filter_fields Grades) kw)) PNone"
  using mapped_params_query [OF filter_fields_distinct [of Grades], of kw]
  by (simp add: get_grades_def)

lemma get_aggregated_attendances_query:
  "get_aggregated_attendances self net kw =
     request self net ''GET'' (list_path AggregatedAttendances) (PDict (query_of (filter_fields AggregatedAttendances) kw)) PNone"
  using mapped_params_query [OF filter_fields_distinct [of AggregatedAttendances], of kw]
  by (simp add: get_aggregated_attendances_def)

lemma get_resources_query:
  "get_resources self net kw =
     request self net ''GET'' (list_path Resources) (PDict (query_of (filter_fields Resources) kw)) PNone"
  using mapped_params_query [OF filter_fields_distinct [of Resources], of kw]
  by (simp add: get_resources_def)

lemma get_rooms_query:
  "get_rooms self net kw =
     request self net ''GET'' (list_path Rooms) (PDict (query_of (filter_fields Rooms) kw)) PNone"
  using mapped_params_query [OF filter_fields_distinct [of Rooms], of kw]
  by (simp add: get_rooms_def)

lemma get_subscriptions_query:
  "get_subscriptions self net kw =
     request self net ''GET'' (list_path Subscriptions) (PDict (query_of (filter_fields Subscriptions) kw)) PNone"
  using mapped_params_query [OF filter_fields_distinct [of Subscriptions], of kw]
  by (simp add: get_subscriptions_def)

lemma get_log_query:
  "get_log self net kw =
     request self net ''GET'' (list_path Log) (PDict (query_of (filter_fields Log) kw)) PNone"
  using mapped_params_query [OF filter_fields_distinct [of Log], of kw]
  by (simp add: get_log_def)

lemma get_statistics_query:
  "get_statistics self net kw =
     request self net ''GET'' (list_path Statistics) (PDict (query_of (filter_fields Statistics) kw)) PNone"
  using mapped_params_query [OF filter_fields_distinct [of Statistics], of kw]
  by (simp add: get_statistics_def)

lemma get_list_query:
  "get_list r self net kw =
     request self net ''GET'' (list_path r) (PDict (query_of (filter_fields r) kw)) PNone"
  by (cases r)
    (simp_all only: get_list.simps
       get_organisations_query get_persons_query get_placements_query
       get_duties_query get_groups_query get_programmes_query
       get_study_plans_query get_syllabuses_query get_school_unit_offerings_query
       get_activities_query get_calendar_events_query get_attendances_query
       get_attendance_events_query get_attendance_schedules_query get_grades_query
       get_aggregated_attendances_query get_resources_query get_rooms_query
       get_subscriptions_query get_log_query get_statistics_query)

lemma query_of_keys:
  "dict_keys (query_of table kw)
     = {wire. \<exists>field. (wire, field) \<in> set table \<and> dict_get kw field \<noteq> PNone}"
  by (force simp: dict_keys_def query_of_def)

lemma query_of_item:
  assumes "distinct (map fst table)" and "(wire, field) \<in> set table"
  shows "map_of (query_of table kw) wire
           = (if dict_get kw field = PNone then None else Some (dict_get kw field))"
  using assms
proof (induction table)
  case Nil
  then show ?case by simp
next
  case (Cons e table)
  obtain w f where e: "e = (w, f)" by (cases e)
  show ?case
  proof (cases "(wire, field) = (w, f)")
    case True
    from Cons.prems(1) have "w \<notin> fst ` set table" by (simp add: e)
    then have "w \<notin> dict_keys (query_of table kw)" by (force simp: query_of_keys)
    then have "map_of (query_of table kw) w = None"
      by (simp add: dict_keys_def map_of_eq_None_iff)
    with True show ?thesis by (simp add: e query_of_def)
  next
    case False
    with Cons.prems have mem: "(wire, field) \<in> set table" and d: "distinct (map fst table)"
      by (auto simp: e)
    from mem d Cons.prems(1) have "wire \<noteq> w" by (force simp: e)
    with Cons.IH [OF d mem] show ?thesis by (simp add: e query_of_def)
  qed
qed

lemma dict_get_absent_or_none:
  "(dict_get kw field = PNone) = (field \<notin> dict_keys kw \<or> map_of kw field = Some PNone)"
proof (cases "map_of kw field")
  case None
  then have "field \<notin> fst ` set kw" by (simp add: map_of_eq_None_iff)
  then show ?thesis unfolding dict_get_def dict_keys_def None by simp
next
  case (Some v)
  then have "field \<in> fst ` set kw" using map_of_eq_None_iff [of kw field] by simp
  with Some show ?thesis by (simp add: dict_get_def dict_keys_def)
qed

section \<open>Absent filters are not sent\<close>

text \<open>
  Claim C1. For every list method and every filter field it reads: when the keyword
  argument is absent from the call, or given as \<^verbatim>\<open>None\<close>, the field's wire name is not
  a key of the query parameters handed to the request.
\<close>

theorem absent_filter_not_in_query:
  assumes "(wire, field) \<in> set (filter_fields r)"
    and "field \<notin> dict_keys kw \<or> map_of kw field = Some PNone"
  shows "wire \<notin> keys_of (req_params (sent (get_list r self net kw)))"
proof -
  from assms(2) have none: "dict_get kw field = PNone"
    by (simp add: dict_get_absent_or_none)
  have "map_of (query_of (filter_fields r) kw) wire = None"
    using query_of_item [OF filter_fields_distinct assms(1), of kw] none by simp
  then have "wire \<notin> dict_keys (query_of (filter_fields r) kw)"
    by (simp add: dict_keys_def map_of_eq_None_iff)
  then show ?thesis by (simp add: get_list_query sent_request)
qed

theorem absent_filter_not_in_query_witness:
  "(''limit'', ''limit'') \<in> set (filter_fields Organisations)
   \<and> map_of [(''limit'', PNone), (''type'', PStr ''School'')] ''limit'' = Some PNone
   \<and> ''limit'' \<notin> keys_of (req_params (sent (get_list Organisations example_client
          (reply empty_object_response) [(''limit'', PNone), (''type'', PStr ''School'')])))
   \<and> (''pageToken'', ''page_token'') \<in> set (filter_fields Organisations)
   \<and> ''page_token'' \<notin> dict_keys [(''limit'', PNone), (''type'', PStr ''School'')]
   \<and> ''pageToken'' \<notin> keys_of (req_params (sent (get_list Organisations example_client
          (reply empty_object_response) [(''limit'', PNone), (''type'', PStr ''School'')])))"
proof -
  let ?kw = "[(''limit'', PNone), (''type'', PStr ''School'')]"
  have m1: "(''limit'', ''limit'') \<in> set (filter_fields Organisations)" by simp
  have a1: "map_of ?kw ''limit'' = Some PNone" by simp
  have m2: "(''pageToken'', ''page_token'') \<in> set (filter_fields Organisations)" by simp
  have a2: "''page_token'' \<notin> dict_keys ?kw" by (simp add: dict_keys_def)
  from absent_filter_not_in_query [OF m1 disjI2 [OF a1]]
       absent_filter_not_in_query [OF m2 disjI1 [OF a2]] m1 a1 m2 a2
  show ?thesis by blast
qed

section \<open>Wire names of range and timestamp filters\<close>

lemma list_query_sent:
  "req_params (sent (get_list r self net kw)) = PDict (query_of (filter_fields r) kw)"
  by (simp add: get_list_query sent_request)























section \<open>Filter names a list method does not read\<close>

lemma dict_get_dict_set_other:
  "field \<noteq> name \<Longrightarrow> dict_get (dict_set kw name v) field = dict_get kw field"
  by (simp add: dict_get_def dict_set_def update_conv')

lemma query_of_cong:
  assumes "\<And>f. f \<in> snd ` set table \<Longrightarrow> dict_get kw f = dict_get kw' f"
  shows "query_of table kw = query_of table kw'"
proof -
  have "map (\<lambda>(wire, field). (wire, dict_get kw field)) table
        = map (\<lambda>(wire, field). (wire, dict_get kw' field)) table"
    using assms by (induction table) auto
  then show ?thesis by (simp only: query_of_def)
qed

lemma query_of_keys_subset: "dict_keys (query_of table kw) \<subseteq> fst ` set table"
  by (force simp: query_of_keys)

text \<open>
  Claim C6, as the code has it. A list method takes any keyword arguments and reads only
  the names of its table with \<^verbatim>\<open>params.get\<close>. A name outside the table raises nothing:
  the method sends the same request and returns the same outcome as without that name,
  and the keys of the query are wire names of the table.
\<close>

theorem unknown_filter_ignored:
  assumes "name \<notin> accepted r"
  shows "get_list r self net (dict_set kw name v) = get_list r self net kw
     \<and> keys_of (req_params (sent (get_list r self net (dict_set kw name v))))
         \<subseteq> fst ` set (filter_fields r)
     \<and> req_method (sent (get_list r self net (dict_set kw name v))) = ''GET''
     \<and> req_url (sent (get_list r self net (dict_set kw name v)))
         = urljoin (base_url self) (list_path r)"
proof -
  have "query_of (filter_fields r) (dict_set kw name v) = query_of (filter_fields r) kw"
  proof (rule query_of_cong)
    fix f assume "f \<in> snd ` set (filter_fields r)"
    with assms have "f \<noteq> name" by (auto simp: accepted_def)
    then show "dict_get (dict_set kw name v) f = dict_get kw f"
      by (rule dict_get_dict_set_other)
  qed
  then have same: "get_list r self net (dict_set kw name v) = get_list r self net kw"
    by (simp only: get_list_query)
  have keys: "keys_of (req_params (sent (get_list r self net (dict_set kw name v))))
         \<subseteq> fst ` set (filter_fields r)"
    by (simp add: list_query_sent query_of_keys_subset)
  have "req_method (sent (get_list r self net (dict_set kw name v))) = ''GET''"
    and "req_url (sent (get_list r self net (dict_set kw name v)))
         = urljoin (base_url self) (list_path r)"
    by (simp_all add: get_list_query sent_request)
  with same keys show ?thesis by (intro conjI)
qed

theorem unknown_filter_ignored_witness:
  "''bogus'' \<notin> accepted Organisations
   \<and> get_list Organisations example_client (reply empty_object_response)
        (dict_set [(''limit'', PInt 2)] ''bogus'' (PStr ''x''))
      = get_list Organisations example_client (reply empty_object_response) [(''limit'', PInt 2)]
   \<and> dict_set [(''limit'', PInt 2)] ''bogus'' (PStr ''x'')
      = [(''limit'', PInt 2), (''bogus'', PStr ''x'')]"
proof -
  have unknown: "''bogus'' \<notin> accepted Organisations"
    by (simp add: accepted_def)
  have kw: "dict_set [(''limit'', PInt 2)] ''bogus'' (PStr ''x'')
      = [(''limit'', PInt 2), (''bogus'', PStr ''x'')]"
    by (simp add: dict_set_def)
  from unknown_filter_ignored [OF unknown, of example_client "reply empty_object_response"
      "[(''limit'', PInt 2)]" "PStr ''x''", THEN conjunct1] unknown kw
  show ?thesis by (intro conjI)
qed

text \<open>
  The claim as stated asks for a \<^verbatim>\<open>ValidationError\<close> before any network call. Here
  \<^verbatim>\<open>get_organisations(bogus="x")\<close> against a server that answers \<^verbatim>\<open>200 {}\<close> sends its
  request with an empty query and returns the decoded answer.
\<close>

theorem unknown_filter_accepted_counterexample:
  "result (get_organisations example_client (reply empty_object_response)
       [(''bogus'', PStr ''x'')]) = Inr (PDict [])
   \<and> req_params (sent (get_organisations example_client (reply empty_object_response)
       [(''bogus'', PStr ''x'')])) = PDict []"
  by (simp add: get_organisations_query sent_request query_of_def dict_get_def
        request_def reply_def empty_object_response_def Let_def)

section \<open>Lookup and by-id methods\<close>

lemma lookup_request:
  "lookup r self net a =
     (if r \<in> {Subscriptions, Log, Statistics} then None
      else Some (request self net ''POST'' (list_path r @ ''/lookup'')
             (PDict (expand_query r (expand_arg a) (expand_reference_names_arg a)))
             (PDict (lookup_body r a))))"
  by (cases r)
    (simp_all add: lookup_body_def expand_query_def truthy_items_def takes_expand_def
      dict_literal_def dict_set_def
      lookup_organisations_def lookup_persons_def lookup_placements_def
      lookup_duties_def lookup_groups_def lookup_programmes_def
      lookup_study_plans_def lookup_syllabuses_def lookup_school_unit_offerings_def
      lookup_activities_def lookup_calendar_events_def lookup_attendances_def
      lookup_attendance_events_def lookup_attendance_schedules_def lookup_grades_def
      lookup_aggregated_attendances_def lookup_resources_def lookup_rooms_def)

lemma get_by_id_request:
  "get_by_id r self net entity_id expand expand_reference_names =
     (if r \<in> {Subscriptions, Log, Statistics} then None
      else Some (request self net ''GET'' (list_path r @ ''/'' @ entity_id)
             (PDict (expand_query r expand expand_reference_names)) PNone))"
  by (cases r)
    (simp_all add: expand_query_def truthy_items_def takes_expand_def
      dict_literal_def dict_set_def
      get_organisation_by_id_def get_person_by_id_def get_placement_by_id_def
      get_duty_by_id_def get_group_by_id_def get_programme_by_id_def
      get_study_plan_by_id_def get_syllabus_by_id_def get_school_unit_offering_by_id_def
      get_activity_by_id_def get_calendar_event_by_id_def get_attendance_by_id_def
      get_attendance_event_by_id_def get_attendance_schedule_by_id_def get_grade_by_id_def
      get_aggregated_attendance_by_id_def get_resource_by_id_def get_room_by_id_def)

lemma lookup_sent:
  assumes "lookup r self net a = Some out"
  shows "req_json (sent out) = PDict (lookup_body r a)"
    and "req_params (sent out)
           = PDict (expand_query r (expand_arg a) (expand_reference_names_arg a))"
    and "req_method (sent out) = ''POST''"
    and "req_url (sent out) = urljoin (base_url self) (list_path r @ ''/lookup'')"
  using assms by (auto simp: lookup_request sent_request split: if_splits)

lemma get_by_id_sent:
  assumes "get_by_id r self net entity_id expand expand_reference_names = Some out"
  shows "req_params (sent out) = PDict (expand_query r expand expand_reference_names)"
    and "req_json (sent out) = PNone"
    and "req_method (sent out) = ''GET''"
  using assms by (auto simp: get_by_id_request sent_request split: if_splits)

lemma lookup_body_keys:
  "dict_keys (lookup_body r a)
     \<subseteq> {''ids'', ''civicNos'', ''schoolUnitCodes'', ''organisationCodes''}"
  by (auto simp: lookup_body_def truthy_items_def dict_keys_def)

lemma expand_query_keys:
  "dict_keys (expand_query r e n) \<subseteq> {''expand'', ''expandReferenceNames''}"
  by (auto simp: expand_query_def truthy_items_def dict_keys_def)

lemma lookup_body_items:
  "map_of (lookup_body r a) ''ids'' = (if truthy (ids_arg a) then Some (ids_arg a) else None)"
  "map_of (lookup_body r a) ''civicNos''
     = (if r = Persons \<and> truthy (civic_nos_arg a) then Some (civic_nos_arg a) else None)"
  "map_of (lookup_body r a) ''schoolUnitCodes''
     = (if r = Organisations \<and> truthy (school_unit_codes_arg a)
        then Some (school_unit_codes_arg a) else None)"
  "map_of (lookup_body r a) ''organisationCodes''
     = (if r = Organisations \<and> truthy (organisation_codes_arg a)
        then Some (organisation_codes_arg a) else None)"
  by (simp_all add: lookup_body_def truthy_items_def)

lemma expand_query_items:
  "map_of (expand_query r e n) ''expand'' = (if takes_expand r \<and> truthy e then Some e else None)"
  "map_of (expand_query r e n) ''expandReferenceNames'' = (if truthy n then Some n else None)"
  by (simp_all add: expand_query_def truthy_items_def)

lemma key_iff_item: "(k \<in> dict_keys d) = (map_of d k \<noteq> None)"
  by (simp add: dict_keys_def map_of_eq_None_iff)

text \<open>
  Claim C2. In every lookup method the body holds identifier lists only and the query
  holds expansion flags only: the keys of the JSON body are among \<^verbatim>\<open>ids\<close>,
  \<^verbatim>\<open>civicNos\<close>, \<^verbatim>\<open>schoolUnitCodes\<close> and \<^verbatim>\<open>organisationCodes\<close>, the keys of the
  query are among \<^verbatim>\<open>expand\<close> and \<^verbatim>\<open>expandReferenceNames\<close>, and each argument given
  (true in Python's sense) is found in its place with its value. In particular
  \<^verbatim>\<open>lookup_persons(ids=["p1","p2"], expand=["duties"])\<close> sends the body
  \<^verbatim>\<open>{"ids":["p1","p2"]}\<close> and the query \<^verbatim>\<open>{"expand":["duties"]}\<close>.
\<close>

theorem lookup_ids_in_body_expand_in_query:
  assumes "lookup r self net a = Some out"
  shows "keys_of (req_json (sent out))
           \<subseteq> {''ids'', ''civicNos'', ''schoolUnitCodes'', ''organisationCodes''}
     \<and> keys_of (req_params (sent out)) \<subseteq> {''expand'', ''expandReferenceNames''}
     \<and> (truthy (ids_arg a) \<longrightarrow> item_of (req_json (sent out)) ''ids'' = Some (ids_arg a))
     \<and> (r = Persons \<and> truthy (civic_nos_arg a) \<longrightarrow>
          item_of (req_json (sent out)) ''civicNos'' = Some (civic_nos_arg a))
     \<and> (r = Organisations \<and> truthy (school_unit_codes_arg a) \<longrightarrow>
          item_of (req_json (sent out)) ''schoolUnitCodes'' = Some (school_unit_codes_arg a))
     \<and> (r = Organisations \<and> truthy (organisation_codes_arg a) \<longrightarrow>
          item_of (req_json (sent out)) ''organisationCodes'' = Some (organisation_codes_arg a))
     \<and> (takes_expand r \<and> truthy (expand_arg a) \<longrightarrow>
          item_of (req_params (sent out)) ''expand'' = Some (expand_arg a))
     \<and> (truthy (expand_reference_names_arg a) \<longrightarrow>
          item_of (req_params (sent out)) ''expandReferenceNames''
            = Some (expand_reference_names_arg a))
     \<and> req_json (sent (lookup_persons self net (PList [PStr ''p1'', PStr ''p2'']) PNone
          (PList [PStr ''duties'']) (PBool False)))
        = PDict [(''ids'', PList [PStr ''p1'', PStr ''p2''])]
     \<and> req_params (sent (lookup_persons self net (PList [PStr ''p1'', PStr ''p2'']) PNone
          (PList [PStr ''duties'']) (PBool False)))
        = PDict [(''expand'', PList [PStr ''duties''])]"
proof -
  note s = lookup_sent [OF assms]
  have body: "keys_of (req_json (sent out))
           \<subseteq> {''ids'', ''civicNos'', ''schoolUnitCodes'', ''organisationCodes''}"
    using lookup_body_keys [of r a] by (simp add: s)
  have query: "keys_of (req_params (sent out)) \<subseteq> {''expand'', ''expandReferenceNames''}"
    using expand_query_keys by (simp add: s)
  have i1: "truthy (ids_arg a) \<longrightarrow> item_of (req_json (sent out)) ''ids'' = Some (ids_arg a)"
    by (simp add: s lookup_body_items)
  have i2: "r = Persons \<and> truthy (civic_nos_arg a) \<longrightarrow>
          item_of (req_json (sent out)) ''civicNos'' = Some (civic_nos_arg a)"
    by (simp add: s lookup_body_items)
  have i3: "r = Organisations \<and> truthy (school_unit_codes_arg a) \<longrightarrow>
          item_of (req_json (sent out)) ''schoolUnitCodes'' = Some (school_unit_codes_arg a)"
    by (simp add: s lookup_body_items)
  have i4: "r = Organisations \<and> truthy (organisation_codes_arg a) \<longrightarrow>
          item_of (req_json (sent out)) ''organisationCodes'' = Some (organisation_codes_arg a)"
    by (simp add: s lookup_body_items)
  have e1: "takes_expand r \<and> truthy (expand_arg a) \<longrightarrow>
          item_of (req_params (sent out)) ''expand'' = Some (expand_arg a)"
    by (simp add: s expand_query_items)
  have e2: "truthy (expand_reference_names_arg a) \<longrightarrow>
          item_of (req_params (sent out)) ''expandReferenceNames''
            = Some (expand_reference_names_arg a)"
    by (simp add: s expand_query_items)
  have x1: "req_json (sent (lookup_persons self net (PList [PStr ''p1'', PStr ''p2'']) PNone
          (PList [PStr ''duties'']) (PBool False)))
        = PDict [(''ids'', PList [PStr ''p1'', PStr ''p2''])]"
    by (simp add: lookup_persons_def sent_request dict_literal_def dict_set_def)
  have x2: "req_params (sent (lookup_persons self net (PList [PStr ''p1'', PStr ''p2'']) PNone
          (PList [PStr ''duties'']) (PBool False)))
        = PDict [(''expand'', PList [PStr ''duties''])]"
    by (simp add: lookup_persons_def sent_request dict_literal_def dict_set_def)
  show ?thesis
    by (intro conjI) (rule body query i1 i2 i3 i4 e1 e2 x1 x2)+
qed

theorem lookup_ids_in_body_expand_in_query_witness:
  "lookup Persons example_client (reply empty_object_response)
      \<lparr>ids_arg = PList [PStr ''p1'', PStr ''p2''], civic_nos_arg = PNone,
       school_unit_codes_arg = PNone, organisation_codes_arg = PNone,
       expand_arg = PList [PStr ''duties''], expand_reference_names_arg = PBool False\<rparr>
     = Some (lookup_persons example_client (reply empty_object_response)
         (PList [PStr ''p1'', PStr ''p2'']) PNone (PList [PStr ''duties'']) (PBool False))
   \<and> keys_of (req_json (sent (lookup_persons example_client (reply empty_object_response)
         (PList [PStr ''p1'', PStr ''p2'']) PNone (PList [PStr ''duties'']) (PBool False))))
       \<subseteq> {''ids'', ''civicNos'', ''schoolUnitCodes'', ''organisationCodes''}
   \<and> keys_of (req_params (sent (lookup_persons example_client (reply empty_object_response)
         (PList [PStr ''p1'', PStr ''p2'']) PNone (PList [PStr ''duties'']) (PBool False))))
       \<subseteq> {''expand'', ''expandReferenceNames''}
   \<and> req_json (sent (lookup_persons example_client (reply empty_object_response)
         (PList [PStr ''p1'', PStr ''p2'']) PNone (PList [PStr ''duties'']) (PBool False)))
       = PDict [(''ids'', PList [PStr ''p1'', PStr ''p2''])]"
proof -
  let ?a = "\<lparr>ids_arg = PList [PStr ''p1'', PStr ''p2''], civic_nos_arg = PNone,
       school_unit_codes_arg = PNone, organisation_codes_arg = PNone,
       expand_arg = PList [PStr ''duties''], expand_reference_names_arg = PBool False\<rparr>"
  let ?out = "lookup_persons example_client (reply empty_object_response)
         (PList [PStr ''p1'', PStr ''p2'']) PNone (PList [PStr ''duties'']) (PBool False)"
  have call: "lookup Persons example_client (reply empty_object_response) ?a = Some ?out"
    by simp
  note inst = lookup_ids_in_body_expand_in_query [OF call]
  from call inst [THEN conjunct1] inst [THEN conjunct2, THEN conjunct1]
    inst [THEN conjunct2, THEN conjunct2, THEN conjunct2, THEN conjunct2, THEN conjunct2,
          THEN conjunct2, THEN conjunct2, THEN conjunct2, THEN conjunct1]
  show ?thesis by (intro conjI)
qed

text \<open>
  Claim C9. In every lookup method an identifier list given as the empty list is
  treated as one that was omitted (the default \<^verbatim>\<open>None\<close>): the call is the same call,
  and the body has no key for that list. This holds for \<^verbatim>\<open>ids\<close>, \<^verbatim>\<open>civic_nos\<close>,
  \<^verbatim>\<open>school_unit_codes\<close> and \<^verbatim>\<open>organisation_codes\<close>.
\<close>

theorem empty_identifier_list_as_omitted:
  "lookup r self net (a\<lparr>ids_arg := PList []\<rparr>) = lookup r self net (a\<lparr>ids_arg := PNone\<rparr>)
   \<and> lookup r self net (a\<lparr>civic_nos_arg := PList []\<rparr>)
       = lookup r self net (a\<lparr>civic_nos_arg := PNone\<rparr>)
   \<and> lookup r self net (a\<lparr>school_unit_codes_arg := PList []\<rparr>)
       = lookup r self net (a\<lparr>school_unit_codes_arg := PNone\<rparr>)
   \<and> lookup r self net (a\<lparr>organisation_codes_arg := PList []\<rparr>)
       = lookup r self net (a\<lparr>organisation_codes_arg := PNone\<rparr>)
   \<and> (lookup r self net a = Some out \<and> ids_arg a = PList [] \<longrightarrow>
        ''ids'' \<notin> keys_of (req_json (sent out)))
   \<and> (lookup r self net a = Some out \<and> civic_nos_arg a = PList [] \<longrightarrow>
        ''civicNos'' \<notin> keys_of (req_json (sent out)))
   \<and> (lookup r self net a = Some out \<and> school_unit_codes_arg a = PList [] \<longrightarrow>
        ''schoolUnitCodes'' \<notin> keys_of (req_json (sent out)))
   \<and> (lookup r self net a = Some out \<and> organisation_codes_arg a = PList [] \<longrightarrow>
        ''organisationCodes'' \<notin> keys_of (req_json (sent out)))"
proof -
  have same:
    "lookup r self net (a\<lparr>ids_arg := PList []\<rparr>) = lookup r self net (a\<lparr>ids_arg := PNone\<rparr>)"
    "lookup r self net (a\<lparr>civic_nos_arg := PList []\<rparr>)
       = lookup r self net (a\<lparr>civic_nos_arg := PNone\<rparr>)"
    "lookup r self net (a\<lparr>school_unit_codes_arg := PList []\<rparr>)
       = lookup r self net (a\<lparr>school_unit_codes_arg := PNone\<rparr>)"
    "lookup r self net (a\<lparr>organisation_codes_arg := PList []\<rparr>)
       = lookup r self net (a\<lparr>organisation_codes_arg := PNone\<rparr>)"
    by (simp_all add: lookup_request lookup_body_def expand_query_def truthy_items_def)
  have k1: "lookup r self net a = Some out \<and> ids_arg a = PList [] \<longrightarrow>
        ''ids'' \<notin> keys_of (req_json (sent out))"
    by (auto simp: lookup_sent key_iff_item lookup_body_items)
  have k2: "lookup r self net a = Some out \<and> civic_nos_arg a = PList [] \<longrightarrow>
        ''civicNos'' \<notin> keys_of (req_json (sent out))"
    by (auto simp: lookup_sent key_iff_item lookup_body_items)
  have k3: "lookup r self net a = Some out \<and> school_unit_codes_arg a = PList [] \<longrightarrow>
        ''schoolUnitCodes'' \<notin> keys_of (req_json (sent out))"
    by (auto simp: lookup_sent key_iff_item lookup_body_items)
  have k4: "lookup r self net a = Some out \<and> organisation_codes_arg a = PList [] \<longrightarrow>
        ''organisationCodes'' \<notin> keys_of (req_json (sent out))"
    by (auto simp: lookup_sent key_iff_item lookup_body_items)
  show ?thesis
    by (intro conjI) (rule same k1 k2 k3 k4)+
qed

theorem empty_identifier_list_as_omitted_witness:
  "lookup_placements example_client (reply empty_object_response) (PList []) PNone (PBool False)
     = lookup_placements example_client (reply empty_object_response) PNone PNone (PBool False)
   \<and> ''ids'' \<notin> keys_of (req_json (sent (lookup_placements example_client
         (reply empty_object_response) (PList []) PNone (PBool False))))
   \<and> req_json (sent (lookup_placements example_client (reply empty_object_response)
         (PList []) PNone (PBool False))) = PDict []"
proof -
  let ?a = "\<lparr>ids_arg = PList [], civic_nos_arg = PNone,
       school_unit_codes_arg = PNone, organisation_codes_arg = PNone,
       expand_arg = PNone, expand_reference_names_arg = PBool False\<rparr>"
  let ?out = "lookup_placements example_client (reply empty_object_response)
         (PList []) PNone (PBool False)"
  note inst = empty_identifier_list_as_omitted [of Placements example_client
      "reply empty_object_response" ?a ?out]
  have call: "lookup Placements example_client (reply empty_object_response) ?a = Some ?out"
    by simp
  have empty: "ids_arg ?a = PList []" by simp
  from inst [THEN conjunct1]
  have same: "lookup_placements example_client (reply empty_object_response)
       (PList []) PNone (PBool False)
     = lookup_placements example_client (reply empty_object_response) PNone PNone (PBool False)"
    by simp
  from inst [THEN conjunct2, THEN conjunct2, THEN conjunct2, THEN conjunct2, THEN conjunct1]
    call empty
  have nokey: "''ids'' \<notin> keys_of (req_json (sent ?out))" by blast
  have body: "req_json (sent ?out) = PDict []"
    by (simp add: lookup_placements_def sent_request dict_literal_def)
  from same nokey body show ?thesis by (intro conjI)
qed

text \<open>
  Claim C10. In every lookup method and every by-id method with expansion flags, the
  query has the key \<^verbatim>\<open>expandReferenceNames\<close> exactly when the argument is true in
  Python's sense, and the key \<^verbatim>\<open>expand\<close> exactly when the method has that parameter
  and its argument is true. \<^verbatim>\<open>False\<close>, \<^verbatim>\<open>None\<close> and the empty list are not true, so
  \<^verbatim>\<open>expand_reference_names=False\<close> (the default, which a caller that omits the argument
  passes) leaves no key, and \<^verbatim>\<open>expand=[]\<close> is the same call as \<^verbatim>\<open>expand=None\<close>.
\<close>

theorem expand_flags_only_when_truthy:
  "(lookup r self net a = Some out \<longrightarrow>
      (''expandReferenceNames'' \<in> keys_of (req_params (sent out)))
        = truthy (expand_reference_names_arg a)
      \<and> (''expand'' \<in> keys_of (req_params (sent out)))
        = (takes_expand r \<and> truthy (expand_arg a)))
   \<and> (get_by_id r self net entity_id e n = Some out' \<longrightarrow>
      (''expandReferenceNames'' \<in> keys_of (req_params (sent out'))) = truthy n
      \<and> (''expand'' \<in> keys_of (req_params (sent out'))) = (takes_expand r \<and> truthy e))
   \<and> \<not> truthy (PBool False) \<and> \<not> truthy PNone \<and> \<not> truthy (PList [])
   \<and> lookup r self net (a\<lparr>expand_arg := PList []\<rparr>)
       = lookup r self net (a\<lparr>expand_arg := PNone\<rparr>)
   \<and> get_by_id r self net entity_id (PList []) n = get_by_id r self net entity_id PNone n"
proof -
  have l: "lookup r self net a = Some out \<longrightarrow>
      (''expandReferenceNames'' \<in> keys_of (req_params (sent out)))
        = truthy (expand_reference_names_arg a)
      \<and> (''expand'' \<in> keys_of (req_params (sent out)))
        = (takes_expand r \<and> truthy (expand_arg a))"
    by (auto simp: lookup_sent key_iff_item expand_query_items)
  have g: "get_by_id r self net entity_id e n = Some out' \<longrightarrow>
      (''expandReferenceNames'' \<in> keys_of (req_params (sent out'))) = truthy n
      \<and> (''expand'' \<in> keys_of (req_params (sent out'))) = (takes_expand r \<and> truthy e)"
    by (auto simp: get_by_id_sent key_iff_item expand_query_items)
  have t: "\<not> truthy (PBool False)" "\<not> truthy PNone" "\<not> truthy (PList [])"
    by simp_all
  have s1: "lookup r self net (a\<lparr>expand_arg := PList []\<rparr>)
       = lookup r self net (a\<lparr>expand_arg := PNone\<rparr>)"
    by (simp add: lookup_request lookup_body_def expand_query_def truthy_items_def)
  have s2: "get_by_id r self net entity_id (PList []) n = get_by_id r self net entity_id PNone n"
    by (simp add: get_by_id_request expand_query_def truthy_items_def)
  show ?thesis
    by (intro conjI) (rule l g t s1 s2)+
qed

theorem expand_flags_only_when_truthy_witness:
  "get_by_id Organisations example_client (reply empty_object_response) ''o1'' PNone (PBool False)
     = Some (get_organisation_by_id example_client (reply empty_object_response) ''o1''
         (PBool False))
   \<and> ''expandReferenceNames'' \<notin> keys_of (req_params (sent (get_organisation_by_id
         example_client (reply empty_object_response) ''o1'' (PBool False))))
   \<and> get_by_id Persons example_client (reply empty_object_response) ''p1''
         (PList [PStr ''duties'']) (PBool True)
     = Some (get_person_by_id example_client (reply empty_object_response) ''p1''
         (PList [PStr ''duties'']) (PBool True))
   \<and> ''expandReferenceNames'' \<in> keys_of (req_params (sent (get_person_by_id
         example_client (reply empty_object_response) ''p1''
         (PList [PStr ''duties'']) (PBool True))))
   \<and> ''expand'' \<in> keys_of (req_params (sent (get_person_by_id
         example_client (reply empty_object_response) ''p1''
         (PList [PStr ''duties'']) (PBool True))))"
proof -
  let ?o = "get_organisation_by_id example_client (reply empty_object_response) ''o1''
         (PBool False)"
  let ?p = "get_person_by_id example_client (reply empty_object_response) ''p1''
         (PList [PStr ''duties'']) (PBool True)"
  have c1: "get_by_id Organisations example_client (reply empty_object_response) ''o1'' PNone
      (PBool False) = Some ?o"
    by simp
  have c2: "get_by_id Persons example_client (reply empty_object_response) ''p1''
         (PList [PStr ''duties'']) (PBool True) = Some ?p"
    by simp
  from expand_flags_only_when_truthy [where r = Organisations and self = example_client
      and net = "reply empty_object_response" and entity_id = "''o1''" and e = PNone
      and n = "PBool False" and out' = ?o, THEN conjunct2, THEN conjunct1] c1
  have k1: "''expandReferenceNames'' \<notin> keys_of (req_params (sent ?o))"
    by simp
  from expand_flags_only_when_truthy [where r = Persons and self = example_client
      and net = "reply empty_object_response" and entity_id = "''p1''"
      and e = "PList [PStr ''duties'']" and n = "PBool True" and out' = ?p,
      THEN conjunct2, THEN conjunct1] c2
  have k2: "''expandReferenceNames'' \<in> keys_of (req_params (sent ?p))"
    and k3: "''expand'' \<in> keys_of (req_params (sent ?p))"
    by (simp_all add: takes_expand_def)
  from c1 k1 c2 k2 k3 show ?thesis by (intro conjI)
qed

section \<open>Responses\<close>

lemma request_result:
  assumes "net (sent (request self net method path params json_data)) = Inr response"
  shows "result (request self net method path params json_data) =
     (if 400 \<le> status_code response \<and> status_code response < 600
      then (case json_value response of
              DecodeCrash cls \<Rightarrow> Inl (OtherDecodeError cls)
            | _ \<Rightarrow> Inl (HTTPError response))
      else if status_code response = 204 then Inr PNone
      else (case json_value response of
              Decoded v \<Rightarrow> Inr v
            | NotJson \<Rightarrow> Inl (JSONDecodeError (body_text response))
            | DecodeCrash cls \<Rightarrow> Inl (OtherDecodeError cls)))"
  using assms unfolding sent_request
  by (simp add: request_def handle_exception_def Let_def split: json_outcome.split)

lemma request_printed:
  assumes "net (sent (request self net method path params json_data)) = Inr response"
    and "400 \<le> status_code response" and "status_code response < 600"
  shows "printed (request self net method path params json_data) =
     ErrorDuringCall method (urljoin (base_url self) path) (HTTPError response) #
     (case json_value response of
        Decoded error_body \<Rightarrow> [ApiErrorResponse error_body]
      | NotJson \<Rightarrow> [ApiErrorResponseNonJson (body_text response)]
      | DecodeCrash cls \<Rightarrow> [])"
  using assms unfolding sent_request
  by (simp add: request_def handle_exception_def Let_def split: json_outcome.split)

text \<open>
  When the decoder returns a value or raises \<^verbatim>\<open>JSONDecodeError\<close> on the body of a
  response with a status from 400 to 599, the call raises the \<^verbatim>\<open>HTTPError\<close> that holds
  the response as it came.
\<close>

lemma http_error_when_decoder_returns:
  assumes "net (sent (request self net method path params json_data)) = Inr response"
    and "400 \<le> status_code response" and "status_code response < 600"
    and "json_value response = Decoded v \<or> json_value response = NotJson"
  shows "result (request self net method path params json_data) = Inl (HTTPError response)"
  using request_result [where net = net, OF assms(1)] assms(2,3,4) by auto

lemma decoder_exception_replaces_error:
  assumes "net (sent (request self net method path params json_data)) = Inr response"
    and "400 \<le> status_code response" and "status_code response < 600"
    and "json_value response = DecodeCrash cls"
  shows "result (request self net method path params json_data) = Inl (OtherDecodeError cls)"
  using request_result [where net = net, OF assms(1)] assms(2,3,4) by simp

text \<open>
  Claim C4 fails on the code. The handler calls \<^verbatim>\<open>e.response.json()\<close> in a \<^verbatim>\<open>try\<close> that
  catches \<^verbatim>\<open>json.JSONDecodeError\<close> only. On a 404 whose body is 100000 opening brackets
  the decoder raises \<^verbatim>\<open>RecursionError\<close>, which leaves the handler in place of the
  \<^verbatim>\<open>HTTPError\<close>: \<^verbatim>\<open>get_organisation_by_id\<close> raises an error that holds neither the
  status nor the body.
\<close>

theorem decoder_exception_masks_status:
  "status_code deep_body_response = 404
   \<and> json_value deep_body_response = DecodeCrash ''RecursionError''
   \<and> result (get_organisation_by_id example_client (reply deep_body_response)
         ''o1'' (PBool False)) = Inl (OtherDecodeError ''RecursionError'')
   \<and> exn_response (OtherDecodeError ''RecursionError'') = None"
  by (simp add: get_organisation_by_id_def request_def handle_exception_def reply_def
        deep_body_response_def Let_def dict_literal_def)

text \<open>
  Claim C5, as the code has it. On a 204 response \<^verbatim>\<open>_request\<close> returns \<^verbatim>\<open>None\<close> without
  decoding the body. Any other response outside 400 to 599 returns its decoded JSON
  body, and that result is the result of a 204 exactly when the body is JSON \<^verbatim>\<open>null\<close>:
  an empty object is told apart from "no content", a \<^verbatim>\<open>null\<close> payload is not.
\<close>

theorem no_content_returns_none:
  assumes "net (sent (request self net method path params json_data)) = Inr response"
  shows "(status_code response = 204 \<longrightarrow>
            result (request self net method path params json_data) = Inr PNone)
     \<and> ((status_code response < 400 \<or> 600 \<le> status_code response)
          \<and> status_code response \<noteq> 204 \<and> json_value response = Decoded v \<longrightarrow>
            result (request self net method path params json_data) = Inr v
            \<and> (result (request self net method path params json_data) = Inr PNone)
                = (v = PNone))"
  using request_result [where net = net, OF assms] by auto

theorem no_content_returns_none_witness:
  "status_code no_content_response = 204
   \<and> result (delete_attendance example_client (reply no_content_response) ''a1'') = Inr PNone
   \<and> status_code empty_object_response = 200
   \<and> json_value empty_object_response = Decoded (PDict [])
   \<and> result (delete_attendance example_client (reply empty_object_response) ''a1'')
       = Inr (PDict [])"
proof -
  have call: "delete_attendance example_client net ''a1''
      = request example_client net ''DELETE'' (''/attendances/'' @ ''a1'') PNone PNone" for net
    by (simp add: delete_attendance_def)
  have n: "reply no_content_response (sent (request example_client (reply no_content_response)
       ''DELETE'' (''/attendances/'' @ ''a1'') PNone PNone)) = Inr no_content_response"
    and e: "reply empty_object_response (sent (request example_client
       (reply empty_object_response) ''DELETE'' (''/attendances/'' @ ''a1'') PNone PNone))
       = Inr empty_object_response"
    by (simp_all add: reply_def)
  have sn: "status_code no_content_response = 204"
    by (simp add: no_content_response_def)
  have se: "status_code empty_object_response = 200"
    "json_value empty_object_response = Decoded (PDict [])"
    by (simp_all add: empty_object_response_def)
  from no_content_returns_none [where net = "reply no_content_response", OF n,
      THEN conjunct1] sn
  have r1: "result (delete_attendance example_client (reply no_content_response) ''a1'')
      = Inr PNone"
    by (simp only: call)
  from no_content_returns_none [where net = "reply empty_object_response"
      and v = "PDict []", OF e, THEN conjunct2] se
  have r2: "result (delete_attendance example_client (reply empty_object_response) ''a1'')
      = Inr (PDict [])"
    by (simp add: call)
  from sn r1 se r2 show ?thesis by (intro conjI)
qed

text \<open>
  The claim as stated asks for a result that cannot be taken for a JSON \<^verbatim>\<open>null\<close>
  payload. A \<^verbatim>\<open>DELETE\<close> answered with 204 and one answered with \<^verbatim>\<open>200 null\<close> return
  the same value.
\<close>

theorem no_content_equals_json_null_counterexample:
  "result (delete_attendance example_client (reply no_content_response) ''a1'') = Inr PNone
   \<and> result (delete_attendance example_client (reply json_null_response) ''a1'') = Inr PNone
   \<and> status_code no_content_response = 204
   \<and> status_code json_null_response = 200
   \<and> json_value json_null_response = Decoded PNone"
  by (simp add: delete_attendance_def request_def reply_def Let_def
        no_content_response_def json_null_response_def)

section \<open>The request URL\<close>

lemma init_example_client:
  "init ''https://some.server.se/v2.0'' (Some ''YOUR_JWT_TOKEN_HERE'') = ([], Inr example_client)"
  by (simp add: init_def example_client_def)

lemma urljoin_example:
  "urljoin ''https://some.server.se/v2.0'' ''/organisations''
     = ''https://some.server.se/organisations''"
  by code_simp

text \<open>
  Claim C7 fails on the code. With the base URL of the class's own documentation and
  example, \<^verbatim>\<open>https://some.server.se/v2.0\<close>, the request of \<^verbatim>\<open>get_organisations\<close> goes to
  \<^verbatim>\<open>https://some.server.se/organisations\<close>: \<^verbatim>\<open>urljoin\<close> replaces the whole path of the
  base when the path it is given starts with a slash, as every path of the client does.
\<close>

theorem base_path_dropped:
  "base_url example_client = ''https://some.server.se/v2.0''
   \<and> req_url (sent (get_organisations example_client net kw))
       = ''https://some.server.se/organisations''"
  by (simp add: get_organisations_query sent_request example_client_def urljoin_example)

section \<open>Creating a subscription\<close>

text \<open>
  Claim C8. \<^verbatim>\<open>create_subscription\<close> sends a \<^verbatim>\<open>POST\<close> for the path \<^verbatim>\<open>/subscriptions\<close>
  with no query and the body \<^verbatim>\<open>{"name": name, "target": target, "resourceTypes": [...]}\<close>
  in which every element of \<^verbatim>\<open>resource_types\<close> is wrapped as \<^verbatim>\<open>{"resource": element}\<close>,
  in order. For \<^verbatim>\<open>name="n"\<close>, \<^verbatim>\<open>target="http://x"\<close> and
  \<^verbatim>\<open>resource_types=["Person","Activity"]\<close> the body is the one of the claim.
\<close>

theorem create_subscription_body:
  "sent (create_subscription self net name target resource_types) =
     \<lparr>req_method = ''POST'', req_url = urljoin (base_url self) ''/subscriptions'',
      req_params = PNone,
      req_json = PDict
        [(''name'', PStr name), (''target'', PStr target),
         (''resourceTypes'', PList (map (\<lambda>rt. PDict [(''resource'', rt)]) resource_types))],
      req_headers = headers self, req_timeout = 30\<rparr>
   \<and> req_json (sent (create_subscription self net name target (map PStr names))) =
       PDict [(''name'', PStr name), (''target'', PStr target),
         (''resourceTypes'', PList (map (\<lambda>s. PDict [(''resource'', PStr s)]) names))]
   \<and> req_json (sent (create_subscription self net ''n'' ''http://x''
         [PStr ''Person'', PStr ''Activity''])) =
       PDict [(''name'', PStr ''n''), (''target'', PStr ''http://x''),
         (''resourceTypes'',
            PList [PDict [(''resource'', PStr ''Person'')],
                   PDict [(''resource'', PStr ''Activity'')]])]"
proof -
  have wrap: "dict_literal [(''resource'', rt)] = [(''resource'', rt)]" for rt
    by (simp add: dict_literal_def dict_set_def)
  have body: "dict_literal [(''name'', PStr name), (''target'', PStr target),
         (''resourceTypes'', PList (map (\<lambda>rt. PDict [(''resource'', rt)]) xs))]
      = [(''name'', PStr name), (''target'', PStr target),
         (''resourceTypes'', PList (map (\<lambda>rt. PDict [(''resource'', rt)]) xs))]"
    for name target xs
    by (rule dict_literal_distinct) simp
  have whole: "sent (create_subscription self net name target xs) =
     \<lparr>req_method = ''POST'', req_url = urljoin (base_url self) ''/subscriptions'',
      req_params = PNone,
      req_json = PDict
        [(''name'', PStr name), (''target'', PStr target),
         (''resourceTypes'', PList (map (\<lambda>rt. PDict [(''resource'', rt)]) xs))],
      req_headers = headers self, req_timeout = 30\<rparr>" for name target xs
    by (simp only: create_subscription_def Let_def wrap body sent_request)
  have strings: "req_json (sent (create_subscription self net name target (map PStr names))) =
       PDict [(''name'', PStr name), (''target'', PStr target),
         (''resourceTypes'', PList (map (\<lambda>s. PDict [(''resource'', PStr s)]) names))]"
    by (simp add: whole comp_def)
  have example: "req_json (sent (create_subscription self net ''n'' ''http://x''
         [PStr ''Person'', PStr ''Activity''])) =
       PDict [(''name'', PStr ''n''), (''target'', PStr ''http://x''),
         (''resourceTypes'',
            PList [PDict [(''resource'', PStr ''Person'')],
                   PDict [(''resource'', PStr ''Activity'')]])]"
    by (simp add: whole)
  from whole strings example show ?thesis by (intro conjI)
qed

theorem create_subscription_body_witness:
  "req_method (sent (create_subscription example_client (reply empty_object_response)
       ''n'' ''http://x'' [PStr ''Person'', PStr ''Activity''])) = ''POST''
   \<and> req_params (sent (create_subscription example_client (reply empty_object_response)
       ''n'' ''http://x'' [PStr ''Person'', PStr ''Activity''])) = PNone
   \<and> req_json (sent (create_subscription example_client (reply empty_object_response)
       ''n'' ''http://x'' [PStr ''Person'', PStr ''Activity''])) =
       PDict [(''name'', PStr ''n''), (''target'', PStr ''http://x''),
         (''resourceTypes'',
            PList [PDict [(''resource'', PStr ''Person'')],
                   PDict [(''resource'', PStr ''Activity'')]])]"
  using create_subscription_body [of example_client "reply empty_object_response"
      "''n''" "''http://x''" "[PStr ''Person'', PStr ''Activity'']" "[]", THEN conjunct1]
  by simp

end
